theory Spec2Isabelle
  imports Main "HOL-Library.Word" "HOL-Library.Sublist"
begin

section \<open>The RPC wrappers of rpc/rpc-wrappers.go\<close>

text \<open>
  The file wraps the four authority interfaces (RA, VA, CA, SA) for use over a
  message transport: a server constructor per role registers one byte-to-byte handler
  per method, and a client type per role implements the same interface by dispatching
  encoded requests. The embedding keeps Go's result pairs \<open>(value, err)\<close> as pairs:
  an error is an \<open>error option\<close> with \<open>None\<close> for \<open>nil\<close>, and a value that the code
  never assigns is the zero value of its type.
\<close>

subsection \<open>Basic types\<close>

type_synonym byte = "8 word"
type_synonym bytes = "byte list"
text \<open>
  \<open>int64\<close>, and Go's \<open>int\<close> (indices, reason codes) at its 64-bit width, as 64-bit words
  (\<open>sint\<close> reads the signed value); the code only passes them on.
\<close>
type_synonym int64 = "64 word"
type_synonym go_int = "64 word"

text \<open>
  Go errors. \<open>sql_ErrNoRows\<close> is the sentinel \<open>sql.ErrNoRows\<close>, \<open>errors_New m\<close> a value
  built by \<open>errors.New(m)\<close> in this file, and \<open>lib_error m\<close> any error produced by a
  collaborator (the JSON and X.509 libraries, the transport, a domain implementation).
\<close>
datatype error = sql_ErrNoRows | errors_New string | lib_error string

text \<open>The Go test \<open>err != nil\<close>.\<close>
definition notnil :: "error option \<Rightarrow> bool" where
  "notnil err = (case err of None \<Rightarrow> False | Some e \<Rightarrow> True)"

text \<open>The conversions \<open>string(b)\<close> and \<open>[]byte(s)\<close>: a Go string is its bytes.\<close>
definition string_of_bytes :: "bytes \<Rightarrow> string" where
  "string_of_bytes b = map (\<lambda>w. char_of (unat w)) b"

definition bytes_of_string :: "string \<Rightarrow> bytes" where
  "bytes_of_string s = map (\<lambda>c. word_of_nat (of_char c)) s"

subsection \<open>The operation names\<close>

definition MethodNewRegistration :: string where
  "MethodNewRegistration = ''NewRegistration''"
definition MethodNewAuthorization :: string where
  "MethodNewAuthorization = ''NewAuthorization''"
definition MethodNewCertificate :: string where
  "MethodNewCertificate = ''NewCertificate''"
definition MethodUpdateRegistration :: string where
  "MethodUpdateRegistration = ''UpdateRegistration''"
definition MethodUpdateAuthorization :: string where
  "MethodUpdateAuthorization = ''UpdateAuthorization''"
definition MethodRevokeCertificate :: string where
  "MethodRevokeCertificate = ''RevokeCertificate''"
definition MethodOnValidationUpdate :: string where
  "MethodOnValidationUpdate = ''OnValidationUpdate''"
definition MethodUpdateValidations :: string where
  "MethodUpdateValidations = ''UpdateValidations''"
definition MethodIssueCertificate :: string where
  "MethodIssueCertificate = ''IssueCertificate''"
definition MethodGenerateOCSP :: string where
  "MethodGenerateOCSP = ''GenerateOCSP''"
definition MethodGetRegistration :: string where
  "MethodGetRegistration = ''GetRegistration''"
definition MethodGetRegistrationByKey :: string where
  "MethodGetRegistrationByKey = ''GetRegistrationByKey''"
definition MethodGetAuthorization :: string where
  "MethodGetAuthorization = ''GetAuthorization''"
definition MethodGetCertificate :: string where
  "MethodGetCertificate = ''GetCertificate''"
definition MethodGetCertificateByShortSerial :: string where
  "MethodGetCertificateByShortSerial = ''GetCertificateByShortSerial''"
definition MethodGetCertificateStatus :: string where
  "MethodGetCertificateStatus = ''GetCertificateStatus''"
definition MethodMarkCertificateRevoked :: string where
  "MethodMarkCertificateRevoked = ''MarkCertificateRevoked''"
definition MethodNewPendingAuthorization :: string where
  "MethodNewPendingAuthorization = ''NewPendingAuthorization''"
definition MethodUpdatePendingAuthorization :: string where
  "MethodUpdatePendingAuthorization = ''UpdatePendingAuthorization''"
definition MethodFinalizeAuthorization :: string where
  "MethodFinalizeAuthorization = ''FinalizeAuthorization''"
definition MethodAddCertificate :: string where
  "MethodAddCertificate = ''AddCertificate''"
definition MethodAlreadyDeniedCSR :: string where
  "MethodAlreadyDeniedCSR = ''AlreadyDeniedCSR''"

lemmas Method_defs =
  MethodNewRegistration_def MethodNewAuthorization_def MethodNewCertificate_def
  MethodUpdateRegistration_def MethodUpdateAuthorization_def MethodRevokeCertificate_def
  MethodOnValidationUpdate_def MethodUpdateValidations_def MethodIssueCertificate_def
  MethodGenerateOCSP_def MethodGetRegistration_def MethodGetRegistrationByKey_def
  MethodGetAuthorization_def MethodGetCertificate_def MethodGetCertificateByShortSerial_def
  MethodGetCertificateStatus_def MethodMarkCertificateRevoked_def
  MethodNewPendingAuthorization_def MethodUpdatePendingAuthorization_def
  MethodFinalizeAuthorization_def MethodAddCertificate_def MethodAlreadyDeniedCSR_def

subsection \<open>Domain value objects\<close>

text \<open>
  Modelled from the spec: the value objects of package \<open>core\<close> and the key type of
  \<open>go-jose\<close> are declared outside rpc-wrappers.go. The spec treats them as opaque,
  serializable records whose business meaning lives in the domain layer, so each is a
  type of its own whose single field stands for the record's contents; contents \<open>0\<close> is
  the Go zero value. Of the two X.509 types the wrappers read only the field \<open>Raw\<close>,
  and a \<open>time.Time\<close> is an instant counted from Go's zero time.
\<close>

datatype core_Registration = Registration (reg_contents: nat)
datatype core_Challenge = Challenge (chall_contents: nat)
datatype core_Authorization = Authorization (authz_contents: nat)
datatype core_CertificateRequest = CertificateRequest (creq_contents: nat)
datatype core_Certificate = Certificate (cert_contents: nat)
datatype core_CertificateStatus = CertificateStatus (status_contents: nat)
datatype core_OCSPSigningRequest = OCSPSigningRequest (ocsp_contents: nat)
datatype jose_JsonWebKey = JsonWebKey (jwk_contents: nat)
datatype x509_Certificate = X509_Certificate (cert_Raw: bytes)
datatype x509_CertificateRequest = X509_CertificateRequest (csr_Raw: bytes)
datatype time_Time = Time (instant: int)

definition zero_Registration :: core_Registration where
  "zero_Registration = Registration 0"
definition zero_Authorization :: core_Authorization where
  "zero_Authorization = Authorization 0"
definition zero_Certificate :: core_Certificate where
  "zero_Certificate = Certificate 0"
definition zero_CertificateStatus :: core_CertificateStatus where
  "zero_CertificateStatus = CertificateStatus 0"
definition zero_Time :: time_Time where
  "zero_Time = Time 0"

subsection \<open>Request structs\<close>

record registrationRequest =
  Reg :: core_Registration

record authorizationRequest =
  ar_Authz :: core_Authorization
  ar_RegID :: int64

record certificateRequest =
  cr_Req :: core_CertificateRequest
  cr_RegID :: int64

text \<open>The anonymous struct \<open>{Base, Update core.Registration}\<close> of UpdateRegistration (RA).\<close>
record updateRegistrationRequest =
  ur_Base :: core_Registration
  ur_Update :: core_Registration

text \<open>The anonymous struct \<open>{Authz; Index; Response}\<close> of UpdateAuthorization (RA).\<close>
record updateAuthorizationRequest =
  ua_Authz :: core_Authorization
  ua_Index :: go_int
  ua_Response :: core_Challenge

text \<open>The anonymous struct \<open>{Authz; Index}\<close> of UpdateValidations (VA).\<close>
record vaRequest =
  va_Authz :: core_Authorization
  va_Index :: go_int

text \<open>The anonymous struct \<open>{Bytes; RegID; EarliestExpiry}\<close> of IssueCertificate (CA).\<close>
record issueCertificateRequest =
  ic_Bytes :: bytes
  ic_RegID :: int64
  ic_EarliestExpiry :: time_Time

text \<open>The anonymous struct \<open>{Serial; ReasonCode}\<close> of RevokeCertificate (CA).\<close>
record revokeRequest =
  rv_Serial :: string
  rv_ReasonCode :: go_int

text \<open>The anonymous struct \<open>{ID int64}\<close> of GetRegistration (SA).\<close>
record intRequest =
  ir_ID :: int64

text \<open>The anonymous struct \<open>{Bytes; RegID}\<close> of AddCertificate (SA).\<close>
record addCertificateRequest =
  ac_Bytes :: bytes
  ac_RegID :: int64

text \<open>The anonymous struct \<open>{Serial; OCSPResponse; ReasonCode}\<close> of MarkCertificateRevoked (SA).\<close>
record markRevokedRequest =
  mr_Serial :: string
  mr_OCSPResponse :: bytes
  mr_ReasonCode :: go_int

text \<open>The anonymous struct \<open>{Names []string}\<close> of AlreadyDeniedCSR (SA).\<close>
record namesRequest =
  Names :: "string list"

text \<open>
  The values that reach a parameter of type \<open>interface{}\<close> (the argument of
  \<open>json.Marshal\<close>, the \<open>obj\<close> of an audit entry), tagged with their dynamic type.
\<close>
datatype dyn =
    DBytes bytes
  | DRegistration core_Registration
  | DAuthorization core_Authorization
  | DCertificate core_Certificate
  | DCertificateStatus core_CertificateStatus
  | DOCSPSigningRequest core_OCSPSigningRequest
  | DJsonWebKey jose_JsonWebKey
  | DX509Certificates "x509_Certificate list"
  | DX509CertificateRequest x509_CertificateRequest
  | DRegistrationRequest registrationRequest
  | DAuthorizationRequest authorizationRequest
  | DCertificateRequest certificateRequest
  | DUpdateRegistrationRequest updateRegistrationRequest
  | DUpdateAuthorizationRequest updateAuthorizationRequest
  | DVaRequest vaRequest
  | DIssueCertificateRequest issueCertificateRequest
  | DRevokeRequest revokeRequest
  | DIntRequest intRequest
  | DAddCertificateRequest addCertificateRequest
  | DMarkRevokedRequest markRevokedRequest
  | DNamesRequest namesRequest

subsection \<open>The audit log\<close>

datatype audit_kind = ImproperMessage | ErrorCondition

text \<open>
  One call of \<open>log.Audit\<close>. The code formats the entry as
  \<open>"<Improper message|Error condition>. method: %s err: %s data: %+v"\<close>; the record
  keeps the four parts of that text.
\<close>
record audit_entry =
  ae_kind :: audit_kind
  ae_method :: string
  ae_err :: "error option"
  ae_data :: dyn

text \<open>
  The state a call can change: the audit logger's entries, its informational lines, and
  the state \<open>'s\<close> of whatever the domain implementation stands on.
\<close>
record 's world =
  audit_log :: "audit_entry list"
  info_log :: "string list"
  domain :: 's

definition improperMessage :: "string \<Rightarrow> error option \<Rightarrow> dyn \<Rightarrow> 's world \<Rightarrow> 's world" where
  "improperMessage m e obj w =
     w\<lparr>audit_log := audit_log w @ [\<lparr>ae_kind = ImproperMessage, ae_method = m, ae_err = e, ae_data = obj\<rparr>]\<rparr>"

definition errorCondition :: "string \<Rightarrow> error option \<Rightarrow> dyn \<Rightarrow> 's world \<Rightarrow> 's world" where
  "errorCondition m e obj w =
     w\<lparr>audit_log := audit_log w @ [\<lparr>ae_kind = ErrorCondition, ae_method = m, ae_err = e, ae_data = obj\<rparr>]\<rparr>"

definition log_Info :: "string \<Rightarrow> 's world \<Rightarrow> 's world" where
  "log_Info msg w = w\<lparr>info_log := info_log w @ [msg]\<rparr>"

subsection \<open>Collaborators\<close>

text \<open>
  The library calls of the file, taken as parameters. \<open>json_Marshal\<close> is
  \<open>json.Marshal\<close>; \<open>json_Unmarshal_T b\<close> is what \<open>json.Unmarshal(b, &v)\<close> leaves in a
  freshly declared \<open>v\<close> of type \<open>T\<close>, with the error it returns.
\<close>
record library =
  json_Marshal :: "dyn \<Rightarrow> bytes \<times> error option"
  key_MarshalJSON :: "jose_JsonWebKey \<Rightarrow> bytes \<times> error option"
  x509_ParseCertificates :: "bytes \<Rightarrow> x509_Certificate list \<times> error option"
  x509_ParseCertificateRequest :: "bytes \<Rightarrow> x509_CertificateRequest \<times> error option"
  json_Unmarshal_Registration :: "bytes \<Rightarrow> core_Registration \<times> error option"
  json_Unmarshal_Authorization :: "bytes \<Rightarrow> core_Authorization \<times> error option"
  json_Unmarshal_Certificate :: "bytes \<Rightarrow> core_Certificate \<times> error option"
  json_Unmarshal_CertificateStatus :: "bytes \<Rightarrow> core_CertificateStatus \<times> error option"
  json_Unmarshal_OCSPSigningRequest :: "bytes \<Rightarrow> core_OCSPSigningRequest \<times> error option"
  json_Unmarshal_JsonWebKey :: "bytes \<Rightarrow> jose_JsonWebKey \<times> error option"
  json_Unmarshal_registrationRequest :: "bytes \<Rightarrow> registrationRequest \<times> error option"
  json_Unmarshal_authorizationRequest :: "bytes \<Rightarrow> authorizationRequest \<times> error option"
  json_Unmarshal_certificateRequest :: "bytes \<Rightarrow> certificateRequest \<times> error option"
  json_Unmarshal_updateRegistrationRequest ::
    "bytes \<Rightarrow> updateRegistrationRequest \<times> error option"
  json_Unmarshal_updateAuthorizationRequest ::
    "bytes \<Rightarrow> updateAuthorizationRequest \<times> error option"
  json_Unmarshal_vaRequest :: "bytes \<Rightarrow> vaRequest \<times> error option"
  json_Unmarshal_issueCertificateRequest :: "bytes \<Rightarrow> issueCertificateRequest \<times> error option"
  json_Unmarshal_revokeRequest :: "bytes \<Rightarrow> revokeRequest \<times> error option"
  json_Unmarshal_intRequest :: "bytes \<Rightarrow> intRequest \<times> error option"
  json_Unmarshal_addCertificateRequest :: "bytes \<Rightarrow> addCertificateRequest \<times> error option"
  json_Unmarshal_markRevokedRequest :: "bytes \<Rightarrow> markRevokedRequest \<times> error option"
  json_Unmarshal_namesRequest :: "bytes \<Rightarrow> namesRequest \<times> error option"

text \<open>
  Modelled from the spec: the transport's two interfaces are declared outside
  rpc-wrappers.go. A handler is a function from request bytes to response bytes and an
  error; \<open>Handle(name, handler)\<close> registers it under a name; \<open>DispatchSync(name,
  payload)\<close> performs a blocking round trip and returns response bytes and an error.
\<close>
type_synonym 's handler = "bytes \<Rightarrow> 's world \<Rightarrow> (bytes \<times> error option) \<times> 's world"
type_synonym 's RPCServer = "(string \<times> 's handler) list"
type_synonym 's RPCClient = "string \<Rightarrow> bytes \<Rightarrow> 's world \<Rightarrow> (bytes \<times> error option) \<times> 's world"

definition Handle :: "string \<Rightarrow> 's handler \<Rightarrow> 's RPCServer \<Rightarrow> 's RPCServer" where
  "Handle name h rpc = rpc @ [(name, h)]"

text \<open>
  The four authority interfaces of package \<open>core\<close>, with the signatures the wrappers
  call them at. A method reads and changes the domain state.
\<close>
record 's RegistrationAuthority =
  ra_NewRegistration :: "core_Registration \<Rightarrow> 's \<Rightarrow> (core_Registration \<times> error option) \<times> 's"
  ra_NewAuthorization ::
    "core_Authorization \<Rightarrow> int64 \<Rightarrow> 's \<Rightarrow> (core_Authorization \<times> error option) \<times> 's"
  ra_NewCertificate ::
    "core_CertificateRequest \<Rightarrow> int64 \<Rightarrow> 's \<Rightarrow> (core_Certificate \<times> error option) \<times> 's"
  ra_UpdateRegistration ::
    "core_Registration \<Rightarrow> core_Registration \<Rightarrow> 's \<Rightarrow> (core_Registration \<times> error option) \<times> 's"
  ra_UpdateAuthorization ::
    "core_Authorization \<Rightarrow> go_int \<Rightarrow> core_Challenge \<Rightarrow> 's
       \<Rightarrow> (core_Authorization \<times> error option) \<times> 's"
  ra_RevokeCertificate :: "x509_Certificate \<Rightarrow> 's \<Rightarrow> error option \<times> 's"
  ra_OnValidationUpdate :: "core_Authorization \<Rightarrow> 's \<Rightarrow> error option \<times> 's"

record 's ValidationAuthority =
  va_UpdateValidations :: "core_Authorization \<Rightarrow> go_int \<Rightarrow> 's \<Rightarrow> error option \<times> 's"

record 's CertificateAuthority =
  ca_IssueCertificate ::
    "x509_CertificateRequest \<Rightarrow> int64 \<Rightarrow> time_Time \<Rightarrow> 's \<Rightarrow> (core_Certificate \<times> error option) \<times> 's"
  ca_RevokeCertificate :: "string \<Rightarrow> go_int \<Rightarrow> 's \<Rightarrow> error option \<times> 's"
  ca_GenerateOCSP :: "core_OCSPSigningRequest \<Rightarrow> 's \<Rightarrow> (bytes \<times> error option) \<times> 's"

record 's StorageAuthority =
  sa_UpdateRegistration :: "core_Registration \<Rightarrow> 's \<Rightarrow> error option \<times> 's"
  sa_GetRegistration :: "int64 \<Rightarrow> 's \<Rightarrow> (core_Registration \<times> error option) \<times> 's"
  sa_GetRegistrationByKey :: "jose_JsonWebKey \<Rightarrow> 's \<Rightarrow> (core_Registration \<times> error option) \<times> 's"
  sa_GetAuthorization :: "string \<Rightarrow> 's \<Rightarrow> (core_Authorization \<times> error option) \<times> 's"
  sa_AddCertificate :: "bytes \<Rightarrow> int64 \<Rightarrow> 's \<Rightarrow> (string \<times> error option) \<times> 's"
  sa_NewRegistration :: "core_Registration \<Rightarrow> 's \<Rightarrow> (core_Registration \<times> error option) \<times> 's"
  sa_NewPendingAuthorization ::
    "core_Authorization \<Rightarrow> 's \<Rightarrow> (core_Authorization \<times> error option) \<times> 's"
  sa_UpdatePendingAuthorization :: "core_Authorization \<Rightarrow> 's \<Rightarrow> error option \<times> 's"
  sa_FinalizeAuthorization :: "core_Authorization \<Rightarrow> 's \<Rightarrow> error option \<times> 's"
  sa_GetCertificate :: "string \<Rightarrow> 's \<Rightarrow> (bytes \<times> error option) \<times> 's"
  sa_GetCertificateByShortSerial :: "string \<Rightarrow> 's \<Rightarrow> (bytes \<times> error option) \<times> 's"
  sa_GetCertificateStatus :: "string \<Rightarrow> 's \<Rightarrow> (core_CertificateStatus \<times> error option) \<times> 's"
  sa_MarkCertificateRevoked :: "string \<Rightarrow> bytes \<Rightarrow> go_int \<Rightarrow> 's \<Rightarrow> error option \<times> 's"
  sa_AlreadyDeniedCSR :: "string list \<Rightarrow> 's \<Rightarrow> (bool \<times> error option) \<times> 's"

text \<open>Calling a method of the bound implementation from a handler.\<close>
definition invoke :: "('s \<Rightarrow> 'r \<times> 's) \<Rightarrow> 's world \<Rightarrow> 'r \<times> 's world" where
  "invoke f w = (case f (domain w) of (r, d) \<Rightarrow> (r, w\<lparr>domain := d\<rparr>))"

subsection \<open>NewRegistrationAuthorityServer\<close>

text \<open>
  Each handler is the closure the constructor passes to \<open>rpc.Handle\<close>, with the
  captured \<open>impl\<close> and the library as parameters. A named result that a path never
  assigns is its zero value: \<open>[]\<close> for \<open>response\<close>.
\<close>

definition RA_NewRegistration_handler ::
  "library \<Rightarrow> 's RegistrationAuthority \<Rightarrow> 's handler" where
  "RA_NewRegistration_handler lib impl req w =
     (case json_Unmarshal_registrationRequest lib req of (rr, err) \<Rightarrow>
        if notnil err then (([], err), improperMessage MethodNewRegistration err (DBytes req) w)
        else case invoke (ra_NewRegistration impl (Reg rr)) w of ((reg, err), w1) \<Rightarrow>
          if notnil err
          then (([], err), errorCondition MethodNewRegistration err (DRegistration reg) w1)
          else case json_Marshal lib (DRegistration reg) of (response, err) \<Rightarrow>
            if notnil err
            then ((response, err), errorCondition MethodNewRegistration err (DBytes req) w1)
            else ((response, err), w1))"

definition RA_NewAuthorization_handler ::
  "library \<Rightarrow> 's RegistrationAuthority \<Rightarrow> 's handler" where
  "RA_NewAuthorization_handler lib impl req w =
     (case json_Unmarshal_authorizationRequest lib req of (ar, err) \<Rightarrow>
        if notnil err then (([], err), improperMessage MethodNewAuthorization err (DBytes req) w)
        else case invoke (ra_NewAuthorization impl (ar_Authz ar) (ar_RegID ar)) w of
          ((authz, err), w1) \<Rightarrow>
          if notnil err
          then (([], err), errorCondition MethodNewAuthorization err (DAuthorizationRequest ar) w1)
          else case json_Marshal lib (DAuthorization authz) of (response, err) \<Rightarrow>
            if notnil err
            then ((response, err), errorCondition MethodNewAuthorization err (DBytes req) w1)
            else ((response, err), w1))"

definition RA_NewCertificate_handler ::
  "library \<Rightarrow> 's RegistrationAuthority \<Rightarrow> 's handler" where
  "RA_NewCertificate_handler lib impl req w0 =
     (let w = log_Info '' [.] Entering MethodNewCertificate'' w0 in
      case json_Unmarshal_certificateRequest lib req of (cr, err) \<Rightarrow>
        if notnil err then (([], err), improperMessage MethodNewCertificate err (DBytes req) w)
        else
          let w1 = log_Info '' [.] No problem unmarshaling request'' w in
          case invoke (ra_NewCertificate impl (cr_Req cr) (cr_RegID cr)) w1 of
            ((cert, err), w2) \<Rightarrow>
            if notnil err
            then (([], err), errorCondition MethodNewCertificate err (DCertificateRequest cr) w2)
            else
              let w3 = log_Info '' [.] No problem issuing new cert'' w2 in
              case json_Marshal lib (DCertificate cert) of (response, err) \<Rightarrow>
                if notnil err
                then ((response, err), errorCondition MethodNewCertificate err (DBytes req) w3)
                else ((response, err), w3))"

definition RA_UpdateRegistration_handler ::
  "library \<Rightarrow> 's RegistrationAuthority \<Rightarrow> 's handler" where
  "RA_UpdateRegistration_handler lib impl req w =
     (case json_Unmarshal_updateRegistrationRequest lib req of (request, err) \<Rightarrow>
        if notnil err then (([], err), improperMessage MethodUpdateRegistration err (DBytes req) w)
        else case invoke (ra_UpdateRegistration impl (ur_Base request) (ur_Update request)) w of
          ((reg, err), w1) \<Rightarrow>
          if notnil err
          then (([], err),
                errorCondition MethodUpdateRegistration err (DUpdateRegistrationRequest request) w1)
          else case json_Marshal lib (DRegistration reg) of (response, err) \<Rightarrow>
            if notnil err
            then ((response, err), errorCondition MethodUpdateRegistration err (DBytes req) w1)
            else ((response, err), w1))"

definition RA_UpdateAuthorization_handler ::
  "library \<Rightarrow> 's RegistrationAuthority \<Rightarrow> 's handler" where
  "RA_UpdateAuthorization_handler lib impl req w =
     (case json_Unmarshal_updateAuthorizationRequest lib req of (authz, err) \<Rightarrow>
        if notnil err then (([], err), improperMessage MethodUpdateAuthorization err (DBytes req) w)
        else case invoke (ra_UpdateAuthorization impl (ua_Authz authz) (ua_Index authz)
                            (ua_Response authz)) w of
          ((newAuthz, err), w1) \<Rightarrow>
          if notnil err
          then (([], err),
                errorCondition MethodUpdateAuthorization err (DUpdateAuthorizationRequest authz) w1)
          else case json_Marshal lib (DAuthorization newAuthz) of (response, err) \<Rightarrow>
            if notnil err
            then ((response, err), errorCondition MethodUpdateAuthorization err (DBytes req) w1)
            else ((response, err), w1))"

text \<open>
  RevokeCertificate (RA) takes the raw DER bytes. The first test also holds when the
  parser returns no certificate and no error; the handler then returns that \<open>nil\<close> error.
\<close>
definition RA_RevokeCertificate_handler ::
  "library \<Rightarrow> 's RegistrationAuthority \<Rightarrow> 's handler" where
  "RA_RevokeCertificate_handler lib impl req w =
     (case x509_ParseCertificates lib req of (certs, err) \<Rightarrow>
        if notnil err \<or> length certs = 0
        then (([], err), improperMessage MethodRevokeCertificate err (DBytes req) w)
        else case invoke (ra_RevokeCertificate impl (hd certs)) w of (err, w1) \<Rightarrow>
          if notnil err
          then (([], err), errorCondition MethodRevokeCertificate err (DX509Certificates certs) w1)
          else (([], err), w1))"

definition RA_OnValidationUpdate_handler ::
  "library \<Rightarrow> 's RegistrationAuthority \<Rightarrow> 's handler" where
  "RA_OnValidationUpdate_handler lib impl req w =
     (case json_Unmarshal_Authorization lib req of (authz, err) \<Rightarrow>
        if notnil err then (([], err), improperMessage MethodOnValidationUpdate err (DBytes req) w)
        else case invoke (ra_OnValidationUpdate impl authz) w of (err, w1) \<Rightarrow>
          if notnil err
          then (([], err), errorCondition MethodOnValidationUpdate err (DAuthorization authz) w1)
          else (([], err), w1))"

definition NewRegistrationAuthorityServer ::
  "library \<Rightarrow> 's RPCServer \<Rightarrow> 's RegistrationAuthority \<Rightarrow> 's RPCServer \<times> error option" where
  "NewRegistrationAuthorityServer lib rpc impl =
     (let rpc = Handle MethodNewRegistration (RA_NewRegistration_handler lib impl) rpc;
          rpc = Handle MethodNewAuthorization (RA_NewAuthorization_handler lib impl) rpc;
          rpc = Handle MethodNewCertificate (RA_NewCertificate_handler lib impl) rpc;
          rpc = Handle MethodUpdateRegistration (RA_UpdateRegistration_handler lib impl) rpc;
          rpc = Handle MethodUpdateAuthorization (RA_UpdateAuthorization_handler lib impl) rpc;
          rpc = Handle MethodRevokeCertificate (RA_RevokeCertificate_handler lib impl) rpc;
          rpc = Handle MethodOnValidationUpdate (RA_OnValidationUpdate_handler lib impl) rpc
      in (rpc, None))"

subsection \<open>NewValidationAuthorityServer\<close>

definition VA_UpdateValidations_handler ::
  "library \<Rightarrow> 's ValidationAuthority \<Rightarrow> 's handler" where
  "VA_UpdateValidations_handler lib impl req w =
     (case json_Unmarshal_vaRequest lib req of (vaReq, err) \<Rightarrow>
        if notnil err then (([], err), improperMessage MethodUpdateValidations err (DBytes req) w)
        else case invoke (va_UpdateValidations impl (va_Authz vaReq) (va_Index vaReq)) w of
          (err, w1) \<Rightarrow>
          if notnil err
          then (([], err), errorCondition MethodUpdateValidations err (DVaRequest vaReq) w1)
          else (([], err), w1))"

definition NewValidationAuthorityServer ::
  "library \<Rightarrow> 's RPCServer \<Rightarrow> 's ValidationAuthority \<Rightarrow> 's RPCServer \<times> error option" where
  "NewValidationAuthorityServer lib rpc impl =
     (let rpc = Handle MethodUpdateValidations (VA_UpdateValidations_handler lib impl) rpc
      in (rpc, None))"

subsection \<open>NewCertificateAuthorityServer\<close>

text \<open>
  In the IssueCertificate handler the audit call after a failed \<open>json.Marshal\<close> is
  written with \<open>MethodGetRegistration\<close>. In the RevokeCertificate handler the domain
  call is \<open>if err := impl.RevokeCertificate(...); err != nil\<close>: that \<open>err\<close> is a new
  variable of the \<open>if\<close> statement, so the handler's result keeps the \<open>nil\<close> of the
  decoding step. Both of these handlers and the GenerateOCSP handler are modelled as
  written.
\<close>

definition CA_IssueCertificate_handler ::
  "library \<Rightarrow> 's CertificateAuthority \<Rightarrow> 's handler" where
  "CA_IssueCertificate_handler lib impl req w =
     (case json_Unmarshal_issueCertificateRequest lib req of (icReq, err) \<Rightarrow>
        if notnil err then (([], err), improperMessage MethodIssueCertificate err (DBytes req) w)
        else case x509_ParseCertificateRequest lib (ic_Bytes icReq) of (csr, err) \<Rightarrow>
          if notnil err
          then (([], err), improperMessage MethodIssueCertificate err (DBytes req) w)
          else case invoke (ca_IssueCertificate impl csr (ic_RegID icReq)
                              (ic_EarliestExpiry icReq)) w of
            ((cert, err), w1) \<Rightarrow>
            if notnil err
            then (([], err),
                  errorCondition MethodIssueCertificate err (DX509CertificateRequest csr) w1)
            else case json_Marshal lib (DCertificate cert) of (response, err) \<Rightarrow>
              if notnil err
              then ((response, err), errorCondition MethodGetRegistration err (DBytes req) w1)
              else ((response, err), w1))"

definition CA_RevokeCertificate_handler ::
  "library \<Rightarrow> 's CertificateAuthority \<Rightarrow> 's handler" where
  "CA_RevokeCertificate_handler lib impl req w =
     (case json_Unmarshal_revokeRequest lib req of (revokeReq, err) \<Rightarrow>
        if notnil err then (([], err), errorCondition MethodRevokeCertificate err (DBytes req) w)
        else case invoke (ca_RevokeCertificate impl (rv_Serial revokeReq)
                            (rv_ReasonCode revokeReq)) w of
          (err', w1) \<Rightarrow>
          if notnil err'
          then (([], err), errorCondition MethodRevokeCertificate err' (DBytes req) w1)
          else (([], err), w1))"

definition CA_GenerateOCSP_handler ::
  "library \<Rightarrow> 's CertificateAuthority \<Rightarrow> 's handler" where
  "CA_GenerateOCSP_handler lib impl req w =
     (case json_Unmarshal_OCSPSigningRequest lib req of (xferObj, err) \<Rightarrow>
        if notnil err then (([], err), errorCondition MethodGenerateOCSP err (DBytes req) w)
        else case invoke (ca_GenerateOCSP impl xferObj) w of ((response, err), w1) \<Rightarrow>
          if notnil err
          then ((response, err), errorCondition MethodGenerateOCSP err (DBytes req) w1)
          else ((response, err), w1))"

definition NewCertificateAuthorityServer ::
  "library \<Rightarrow> 's RPCServer \<Rightarrow> 's CertificateAuthority \<Rightarrow> 's RPCServer \<times> error option" where
  "NewCertificateAuthorityServer lib rpc impl =
     (let rpc = Handle MethodIssueCertificate (CA_IssueCertificate_handler lib impl) rpc;
          rpc = Handle MethodRevokeCertificate (CA_RevokeCertificate_handler lib impl) rpc;
          rpc = Handle MethodGenerateOCSP (CA_GenerateOCSP_handler lib impl) rpc
      in (rpc, None))"

subsection \<open>NewStorageAuthorityServer\<close>

definition SA_UpdateRegistration_handler ::
  "library \<Rightarrow> 's StorageAuthority \<Rightarrow> 's handler" where
  "SA_UpdateRegistration_handler lib impl req w =
     (case json_Unmarshal_Registration lib req of (reg, err) \<Rightarrow>
        if notnil err then (([], err), improperMessage MethodUpdateRegistration err (DBytes req) w)
        else case invoke (sa_UpdateRegistration impl reg) w of (err, w1) \<Rightarrow>
          if notnil err
          then (([], err), errorCondition MethodUpdateRegistration err (DBytes req) w1)
          else (([], err), w1))"

definition SA_GetRegistration_handler ::
  "library \<Rightarrow> 's StorageAuthority \<Rightarrow> 's handler" where
  "SA_GetRegistration_handler lib impl req w =
     (case json_Unmarshal_intRequest lib req of (intReq, err) \<Rightarrow>
        if notnil err then (([], err), improperMessage MethodGetRegistration err (DBytes req) w)
        else case invoke (sa_GetRegistration impl (ir_ID intReq)) w of ((reg, err), w1) \<Rightarrow>
          if notnil err
          then (([], err), errorCondition MethodGetRegistration err (DBytes req) w1)
          else case json_Marshal lib (DRegistration reg) of (response, err) \<Rightarrow>
            if notnil err
            then ((response, err), errorCondition MethodGetRegistration err (DBytes req) w1)
            else ((response, err), w1))"

definition SA_GetRegistrationByKey_handler ::
  "library \<Rightarrow> 's StorageAuthority \<Rightarrow> 's handler" where
  "SA_GetRegistrationByKey_handler lib impl req w =
     (case json_Unmarshal_JsonWebKey lib req of (jwk, err) \<Rightarrow>
        if notnil err
        then (([], err), improperMessage MethodGetRegistrationByKey err (DBytes req) w)
        else case invoke (sa_GetRegistrationByKey impl jwk) w of ((reg, err), w1) \<Rightarrow>
          if notnil err
          then (([], err), errorCondition MethodGetRegistrationByKey err (DJsonWebKey jwk) w1)
          else case json_Marshal lib (DRegistration reg) of (response, err) \<Rightarrow>
            if notnil err
            then ((response, err), errorCondition MethodGetRegistrationByKey err (DBytes req) w1)
            else ((response, err), w1))"

definition SA_GetAuthorization_handler ::
  "library \<Rightarrow> 's StorageAuthority \<Rightarrow> 's handler" where
  "SA_GetAuthorization_handler lib impl req w =
     (case invoke (sa_GetAuthorization impl (string_of_bytes req)) w of ((authz, err), w1) \<Rightarrow>
        if notnil err
        then (([], err), errorCondition MethodGetAuthorization err (DBytes req) w1)
        else case json_Marshal lib (DAuthorization authz) of (response, err) \<Rightarrow>
          if notnil err
          then ((response, err), errorCondition MethodGetAuthorization err (DBytes req) w1)
          else ((response, err), w1))"

definition SA_AddCertificate_handler ::
  "library \<Rightarrow> 's StorageAuthority \<Rightarrow> 's handler" where
  "SA_AddCertificate_handler lib impl req w =
     (case json_Unmarshal_addCertificateRequest lib req of (icReq, err) \<Rightarrow>
        if notnil err then (([], err), improperMessage MethodAddCertificate err (DBytes req) w)
        else case invoke (sa_AddCertificate impl (ac_Bytes icReq) (ac_RegID icReq)) w of
          ((id', err), w1) \<Rightarrow>
          if notnil err
          then (([], err), errorCondition MethodAddCertificate err (DBytes req) w1)
          else ((bytes_of_string id', err), w1))"

definition SA_NewRegistration_handler ::
  "library \<Rightarrow> 's StorageAuthority \<Rightarrow> 's handler" where
  "SA_NewRegistration_handler lib impl req w =
     (case json_Unmarshal_Registration lib req of (registration, err) \<Rightarrow>
        if notnil err then (([], err), improperMessage MethodNewRegistration err (DBytes req) w)
        else case invoke (sa_NewRegistration impl registration) w of ((output, err), w1) \<Rightarrow>
          if notnil err
          then (([], err), errorCondition MethodNewRegistration err (DRegistration registration) w1)
          else case json_Marshal lib (DRegistration output) of (response, err) \<Rightarrow>
            if notnil err
            then ((response, err), errorCondition MethodNewRegistration err (DBytes req) w1)
            else ((response, err), w1))"

definition SA_NewPendingAuthorization_handler ::
  "library \<Rightarrow> 's StorageAuthority \<Rightarrow> 's handler" where
  "SA_NewPendingAuthorization_handler lib impl req w =
     (case json_Unmarshal_Authorization lib req of (authz, err) \<Rightarrow>
        if notnil err
        then (([], err), improperMessage MethodNewPendingAuthorization err (DBytes req) w)
        else case invoke (sa_NewPendingAuthorization impl authz) w of ((output, err), w1) \<Rightarrow>
          if notnil err
          then (([], err), errorCondition MethodNewPendingAuthorization err (DBytes req) w1)
          else case json_Marshal lib (DAuthorization output) of (response, err) \<Rightarrow>
            if notnil err
            then ((response, err),
                  errorCondition MethodNewPendingAuthorization err (DBytes req) w1)
            else ((response, err), w1))"

definition SA_UpdatePendingAuthorization_handler ::
  "library \<Rightarrow> 's StorageAuthority \<Rightarrow> 's handler" where
  "SA_UpdatePendingAuthorization_handler lib impl req w =
     (case json_Unmarshal_Authorization lib req of (authz, err) \<Rightarrow>
        if notnil err
        then (([], err), improperMessage MethodUpdatePendingAuthorization err (DBytes req) w)
        else case invoke (sa_UpdatePendingAuthorization impl authz) w of (err, w1) \<Rightarrow>
          if notnil err
          then (([], err),
                errorCondition MethodUpdatePendingAuthorization err (DAuthorization authz) w1)
          else (([], err), w1))"

definition SA_FinalizeAuthorization_handler ::
  "library \<Rightarrow> 's StorageAuthority \<Rightarrow> 's handler" where
  "SA_FinalizeAuthorization_handler lib impl req w =
     (case json_Unmarshal_Authorization lib req of (authz, err) \<Rightarrow>
        if notnil err
        then (([], err), improperMessage MethodFinalizeAuthorization err (DBytes req) w)
        else case invoke (sa_FinalizeAuthorization impl authz) w of (err, w1) \<Rightarrow>
          if notnil err
          then (([], err), errorCondition MethodFinalizeAuthorization err (DAuthorization authz) w1)
          else (([], err), w1))"

definition SA_GetCertificate_handler ::
  "library \<Rightarrow> 's StorageAuthority \<Rightarrow> 's handler" where
  "SA_GetCertificate_handler lib impl req w =
     (case invoke (sa_GetCertificate impl (string_of_bytes req)) w of ((cert, err), w1) \<Rightarrow>
        if notnil err
        then (([], err), errorCondition MethodGetCertificate err (DBytes req) w1)
        else ((cert, err), w1))"

text \<open>The one handler that compares the domain error with \<open>sql.ErrNoRows\<close> before auditing.\<close>
definition SA_GetCertificateByShortSerial_handler ::
  "library \<Rightarrow> 's StorageAuthority \<Rightarrow> 's handler" where
  "SA_GetCertificateByShortSerial_handler lib impl req w =
     (case invoke (sa_GetCertificateByShortSerial impl (string_of_bytes req)) w of
        ((cert, err), w1) \<Rightarrow>
        if notnil err
        then (if err = Some sql_ErrNoRows then (([], err), w1)
              else (([], err), errorCondition MethodGetCertificateByShortSerial err (DBytes req) w1))
        else ((cert, err), w1))"

definition SA_GetCertificateStatus_handler ::
  "library \<Rightarrow> 's StorageAuthority \<Rightarrow> 's handler" where
  "SA_GetCertificateStatus_handler lib impl req w =
     (case invoke (sa_GetCertificateStatus impl (string_of_bytes req)) w of
        ((status, err), w1) \<Rightarrow>
        if notnil err
        then (([], err), errorCondition MethodGetCertificateStatus err (DBytes req) w1)
        else case json_Marshal lib (DCertificateStatus status) of (response, err) \<Rightarrow>
          if notnil err
          then ((response, err), errorCondition MethodGetCertificateStatus err (DBytes req) w1)
          else ((response, err), w1))"

definition SA_MarkCertificateRevoked_handler ::
  "library \<Rightarrow> 's StorageAuthority \<Rightarrow> 's handler" where
  "SA_MarkCertificateRevoked_handler lib impl req w =
     (case json_Unmarshal_markRevokedRequest lib req of (revokeReq, err) \<Rightarrow>
        if notnil err
        then (([], err), improperMessage MethodMarkCertificateRevoked err (DBytes req) w)
        else case invoke (sa_MarkCertificateRevoked impl (mr_Serial revokeReq)
                            (mr_OCSPResponse revokeReq) (mr_ReasonCode revokeReq)) w of
          (err, w1) \<Rightarrow>
          if notnil err
          then (([], err),
                errorCondition MethodMarkCertificateRevoked err (DMarkRevokedRequest revokeReq) w1)
          else (([], err), w1))"

definition SA_AlreadyDeniedCSR_handler ::
  "library \<Rightarrow> 's StorageAuthority \<Rightarrow> 's handler" where
  "SA_AlreadyDeniedCSR_handler lib impl req w =
     (case json_Unmarshal_namesRequest lib req of (csrReq, err) \<Rightarrow>
        if notnil err then (([], err), improperMessage MethodAlreadyDeniedCSR err (DBytes req) w)
        else case invoke (sa_AlreadyDeniedCSR impl (Names csrReq)) w of ((exists, err), w1) \<Rightarrow>
          if notnil err
          then (([], err), errorCondition MethodAlreadyDeniedCSR err (DNamesRequest csrReq) w1)
          else if exists then (([1], err), w1) else (([0], err), w1))"

definition NewStorageAuthorityServer ::
  "library \<Rightarrow> 's RPCServer \<Rightarrow> 's StorageAuthority \<Rightarrow> 's RPCServer \<times> error option" where
  "NewStorageAuthorityServer lib rpc impl =
     (let rpc = Handle MethodUpdateRegistration (SA_UpdateRegistration_handler lib impl) rpc;
          rpc = Handle MethodGetRegistration (SA_GetRegistration_handler lib impl) rpc;
          rpc = Handle MethodGetRegistrationByKey (SA_GetRegistrationByKey_handler lib impl) rpc;
          rpc = Handle MethodGetAuthorization (SA_GetAuthorization_handler lib impl) rpc;
          rpc = Handle MethodAddCertificate (SA_AddCertificate_handler lib impl) rpc;
          rpc = Handle MethodNewRegistration (SA_NewRegistration_handler lib impl) rpc;
          rpc = Handle MethodNewPendingAuthorization
                  (SA_NewPendingAuthorization_handler lib impl) rpc;
          rpc = Handle MethodUpdatePendingAuthorization
                  (SA_UpdatePendingAuthorization_handler lib impl) rpc;
          rpc = Handle MethodFinalizeAuthorization (SA_FinalizeAuthorization_handler lib impl) rpc;
          rpc = Handle MethodGetCertificate (SA_GetCertificate_handler lib impl) rpc;
          rpc = Handle MethodGetCertificateByShortSerial
                  (SA_GetCertificateByShortSerial_handler lib impl) rpc;
          rpc = Handle MethodGetCertificateStatus (SA_GetCertificateStatus_handler lib impl) rpc;
          rpc = Handle MethodMarkCertificateRevoked
                  (SA_MarkCertificateRevoked_handler lib impl) rpc;
          rpc = Handle MethodAlreadyDeniedCSR (SA_AlreadyDeniedCSR_handler lib impl) rpc
      in (rpc, None))"

subsection \<open>RegistrationAuthorityClient\<close>

text \<open>
  A client is a struct holding the transport. A stub returns Go's result pair and the
  world the dispatch left; a named result that a path never assigns is its zero value.
\<close>

record 's RegistrationAuthorityClient =
  rac_rpc :: "'s RPCClient"

definition NewRegistrationAuthorityClient ::
  "'s RPCClient \<Rightarrow> 's RegistrationAuthorityClient \<times> error option" where
  "NewRegistrationAuthorityClient client = (\<lparr>rac_rpc = client\<rparr>, None)"

definition RegistrationAuthorityClient_NewRegistration ::
  "library \<Rightarrow> 's RegistrationAuthorityClient \<Rightarrow> core_Registration \<Rightarrow> 's world
     \<Rightarrow> (core_Registration \<times> error option) \<times> 's world" where
  "RegistrationAuthorityClient_NewRegistration lib rac reg w =
     (case json_Marshal lib (DRegistrationRequest \<lparr>Reg = reg\<rparr>) of (data, err) \<Rightarrow>
        if notnil err then ((zero_Registration, err), w)
        else case rac_rpc rac MethodNewRegistration data w of ((newRegData, err), w1) \<Rightarrow>
          if notnil err \<or> length newRegData = 0 then ((zero_Registration, err), w1)
          else case json_Unmarshal_Registration lib newRegData of (newReg, err) \<Rightarrow>
            ((newReg, err), w1))"

definition RegistrationAuthorityClient_NewAuthorization ::
  "library \<Rightarrow> 's RegistrationAuthorityClient \<Rightarrow> core_Authorization \<Rightarrow> int64 \<Rightarrow> 's world
     \<Rightarrow> (core_Authorization \<times> error option) \<times> 's world" where
  "RegistrationAuthorityClient_NewAuthorization lib rac authz regID w =
     (case json_Marshal lib (DAuthorizationRequest \<lparr>ar_Authz = authz, ar_RegID = regID\<rparr>) of
        (data, err) \<Rightarrow>
        if notnil err then ((zero_Authorization, err), w)
        else case rac_rpc rac MethodNewAuthorization data w of ((newAuthzData, err), w1) \<Rightarrow>
          if notnil err \<or> length newAuthzData = 0 then ((zero_Authorization, err), w1)
          else case json_Unmarshal_Authorization lib newAuthzData of (newAuthz, err) \<Rightarrow>
            ((newAuthz, err), w1))"

definition RegistrationAuthorityClient_NewCertificate ::
  "library \<Rightarrow> 's RegistrationAuthorityClient \<Rightarrow> core_CertificateRequest \<Rightarrow> int64 \<Rightarrow> 's world
     \<Rightarrow> (core_Certificate \<times> error option) \<times> 's world" where
  "RegistrationAuthorityClient_NewCertificate lib rac cr regID w =
     (case json_Marshal lib (DCertificateRequest \<lparr>cr_Req = cr, cr_RegID = regID\<rparr>) of
        (data, err) \<Rightarrow>
        if notnil err then ((zero_Certificate, err), w)
        else case rac_rpc rac MethodNewCertificate data w of ((certData, err), w1) \<Rightarrow>
          if notnil err then ((zero_Certificate, err), w1)
          else if length certData = 0
          then ((zero_Certificate, Some (errors_New ''NewCertificate RPC to RA failed.'')), w1)
          else case json_Unmarshal_Certificate lib certData of (cert, err) \<Rightarrow>
            ((cert, err), w1))"

definition RegistrationAuthorityClient_UpdateRegistration ::
  "library \<Rightarrow> 's RegistrationAuthorityClient \<Rightarrow> core_Registration \<Rightarrow> core_Registration
     \<Rightarrow> 's world \<Rightarrow> (core_Registration \<times> error option) \<times> 's world" where
  "RegistrationAuthorityClient_UpdateRegistration lib rac base update w =
     (let toSend = \<lparr>ur_Base = base, ur_Update = update\<rparr> in
      case json_Marshal lib (DUpdateRegistrationRequest toSend) of (data, err) \<Rightarrow>
        if notnil err then ((zero_Registration, err), w)
        else case rac_rpc rac MethodUpdateRegistration data w of ((newRegData, err), w1) \<Rightarrow>
          if notnil err \<or> length newRegData = 0 then ((zero_Registration, err), w1)
          else case json_Unmarshal_Registration lib newRegData of (newReg, err) \<Rightarrow>
            ((newReg, err), w1))"

definition RegistrationAuthorityClient_UpdateAuthorization ::
  "library \<Rightarrow> 's RegistrationAuthorityClient \<Rightarrow> core_Authorization \<Rightarrow> go_int \<Rightarrow> core_Challenge
     \<Rightarrow> 's world \<Rightarrow> (core_Authorization \<times> error option) \<times> 's world" where
  "RegistrationAuthorityClient_UpdateAuthorization lib rac authz index response w =
     (let toSend = \<lparr>ua_Authz = authz, ua_Index = index, ua_Response = response\<rparr> in
      case json_Marshal lib (DUpdateAuthorizationRequest toSend) of (data, err) \<Rightarrow>
        if notnil err then ((zero_Authorization, err), w)
        else case rac_rpc rac MethodUpdateAuthorization data w of ((newAuthzData, err), w1) \<Rightarrow>
          if notnil err \<or> length newAuthzData = 0 then ((zero_Authorization, err), w1)
          else case json_Unmarshal_Authorization lib newAuthzData of (newAuthz, err) \<Rightarrow>
            ((newAuthz, err), w1))"

definition RegistrationAuthorityClient_RevokeCertificate ::
  "library \<Rightarrow> 's RegistrationAuthorityClient \<Rightarrow> x509_Certificate \<Rightarrow> 's world
     \<Rightarrow> error option \<times> 's world" where
  "RegistrationAuthorityClient_RevokeCertificate lib rac cert w =
     (case rac_rpc rac MethodRevokeCertificate (cert_Raw cert) w of ((_, err), w1) \<Rightarrow> (err, w1))"

definition RegistrationAuthorityClient_OnValidationUpdate ::
  "library \<Rightarrow> 's RegistrationAuthorityClient \<Rightarrow> core_Authorization \<Rightarrow> 's world
     \<Rightarrow> error option \<times> 's world" where
  "RegistrationAuthorityClient_OnValidationUpdate lib rac authz w =
     (case json_Marshal lib (DAuthorization authz) of (data, err) \<Rightarrow>
        if notnil err then (err, w)
        else case rac_rpc rac MethodOnValidationUpdate data w of ((_, err), w1) \<Rightarrow> (err, w1))"

subsection \<open>ValidationAuthorityClient\<close>

record 's ValidationAuthorityClient =
  vac_rpc :: "'s RPCClient"

definition NewValidationAuthorityClient ::
  "'s RPCClient \<Rightarrow> 's ValidationAuthorityClient \<times> error option" where
  "NewValidationAuthorityClient client = (\<lparr>vac_rpc = client\<rparr>, None)"

text \<open>The stub assigns the dispatch error to \<open>err\<close> and then returns the literal \<open>nil\<close>.\<close>
definition ValidationAuthorityClient_UpdateValidations ::
  "library \<Rightarrow> 's ValidationAuthorityClient \<Rightarrow> core_Authorization \<Rightarrow> go_int \<Rightarrow> 's world
     \<Rightarrow> error option \<times> 's world" where
  "ValidationAuthorityClient_UpdateValidations lib vac authz index w =
     (let vaReq = \<lparr>va_Authz = authz, va_Index = index\<rparr> in
      case json_Marshal lib (DVaRequest vaReq) of (data, err) \<Rightarrow>
        if notnil err then (err, w)
        else case vac_rpc vac MethodUpdateValidations data w of ((_, err), w1) \<Rightarrow> (None, w1))"

subsection \<open>CertificateAuthorityClient\<close>

record 's CertificateAuthorityClient =
  cac_rpc :: "'s RPCClient"

definition NewCertificateAuthorityClient ::
  "'s RPCClient \<Rightarrow> 's CertificateAuthorityClient \<times> error option" where
  "NewCertificateAuthorityClient client = (\<lparr>cac_rpc = client\<rparr>, None)"

text \<open>
  The request struct is declared with three fields; the stub assigns \<open>Bytes\<close> and
  \<open>RegID\<close> and no other, so \<open>EarliestExpiry\<close> keeps the zero value of \<open>time.Time\<close>.
\<close>
definition CertificateAuthorityClient_IssueCertificate ::
  "library \<Rightarrow> 's CertificateAuthorityClient \<Rightarrow> x509_CertificateRequest \<Rightarrow> int64 \<Rightarrow> time_Time
     \<Rightarrow> 's world \<Rightarrow> (core_Certificate \<times> error option) \<times> 's world" where
  "CertificateAuthorityClient_IssueCertificate lib cac csr regID earliestExpiry w =
     (let icReq = \<lparr>ic_Bytes = csr_Raw csr, ic_RegID = regID, ic_EarliestExpiry = zero_Time\<rparr> in
      case json_Marshal lib (DIssueCertificateRequest icReq) of (data, err) \<Rightarrow>
        if notnil err then ((zero_Certificate, err), w)
        else case cac_rpc cac MethodIssueCertificate data w of ((jsonResponse, err), w1) \<Rightarrow>
          if notnil err then ((zero_Certificate, err), w1)
          else if length jsonResponse = 0
          then ((zero_Certificate, Some (errors_New ''IssueCertificate RPC to CA failed.'')), w1)
          else case json_Unmarshal_Certificate lib jsonResponse of (cert, err) \<Rightarrow>
            ((cert, err), w1))"

definition CertificateAuthorityClient_RevokeCertificate ::
  "library \<Rightarrow> 's CertificateAuthorityClient \<Rightarrow> string \<Rightarrow> go_int \<Rightarrow> 's world
     \<Rightarrow> error option \<times> 's world" where
  "CertificateAuthorityClient_RevokeCertificate lib cac serial reasonCode w =
     (let revokeReq = \<lparr>rv_Serial = serial, rv_ReasonCode = reasonCode\<rparr> in
      case json_Marshal lib (DRevokeRequest revokeReq) of (data, err) \<Rightarrow>
        if notnil err
        then (err, errorCondition MethodRevokeCertificate err (DRevokeRequest revokeReq) w)
        else case cac_rpc cac MethodRevokeCertificate data w of ((_, err), w1) \<Rightarrow> (err, w1))"

text \<open>The audit call after a failed \<open>json.Marshal\<close> is written with \<open>MethodGetRegistration\<close>.\<close>
definition CertificateAuthorityClient_GenerateOCSP ::
  "library \<Rightarrow> 's CertificateAuthorityClient \<Rightarrow> core_OCSPSigningRequest \<Rightarrow> 's world
     \<Rightarrow> (bytes \<times> error option) \<times> 's world" where
  "CertificateAuthorityClient_GenerateOCSP lib cac signRequest w =
     (case json_Marshal lib (DOCSPSigningRequest signRequest) of (data, err) \<Rightarrow>
        if notnil err
        then (([], err), errorCondition MethodGetRegistration err (DOCSPSigningRequest signRequest) w)
        else case cac_rpc cac MethodGenerateOCSP data w of ((resp, err), w1) \<Rightarrow>
          ((resp, err), w1))"

subsection \<open>StorageAuthorityClient\<close>

record 's StorageAuthorityClient =
  sac_rpc :: "'s RPCClient"

definition NewStorageAuthorityClient ::
  "'s RPCClient \<Rightarrow> 's StorageAuthorityClient \<times> error option" where
  "NewStorageAuthorityClient client = (\<lparr>sac_rpc = client\<rparr>, None)"

definition StorageAuthorityClient_GetRegistration ::
  "library \<Rightarrow> 's StorageAuthorityClient \<Rightarrow> int64 \<Rightarrow> 's world
     \<Rightarrow> (core_Registration \<times> error option) \<times> 's world" where
  "StorageAuthorityClient_GetRegistration lib cac id' w =
     (let intReq = \<lparr>ir_ID = id'\<rparr> in
      case json_Marshal lib (DIntRequest intReq) of (data, err) \<Rightarrow>
        if notnil err then ((zero_Registration, err), w)
        else case sac_rpc cac MethodGetRegistration data w of ((jsonReg, err), w1) \<Rightarrow>
          if notnil err then ((zero_Registration, err), w1)
          else case json_Unmarshal_Registration lib jsonReg of (reg, err) \<Rightarrow> ((reg, err), w1))"

definition StorageAuthorityClient_GetRegistrationByKey ::
  "library \<Rightarrow> 's StorageAuthorityClient \<Rightarrow> jose_JsonWebKey \<Rightarrow> 's world
     \<Rightarrow> (core_Registration \<times> error option) \<times> 's world" where
  "StorageAuthorityClient_GetRegistrationByKey lib cac key w =
     (case key_MarshalJSON lib key of (jsonKey, err) \<Rightarrow>
        if notnil err then ((zero_Registration, err), w)
        else case sac_rpc cac MethodGetRegistrationByKey jsonKey w of ((jsonReg, err), w1) \<Rightarrow>
          if notnil err then ((zero_Registration, err), w1)
          else case json_Unmarshal_Registration lib jsonReg of (reg, err) \<Rightarrow> ((reg, err), w1))"

definition StorageAuthorityClient_GetAuthorization ::
  "library \<Rightarrow> 's StorageAuthorityClient \<Rightarrow> string \<Rightarrow> 's world
     \<Rightarrow> (core_Authorization \<times> error option) \<times> 's world" where
  "StorageAuthorityClient_GetAuthorization lib cac id' w =
     (case sac_rpc cac MethodGetAuthorization (bytes_of_string id') w of
        ((jsonAuthz, err), w1) \<Rightarrow>
        if notnil err then ((zero_Authorization, err), w1)
        else case json_Unmarshal_Authorization lib jsonAuthz of (authz, err) \<Rightarrow>
          ((authz, err), w1))"

definition StorageAuthorityClient_GetCertificate ::
  "library \<Rightarrow> 's StorageAuthorityClient \<Rightarrow> string \<Rightarrow> 's world
     \<Rightarrow> (bytes \<times> error option) \<times> 's world" where
  "StorageAuthorityClient_GetCertificate lib cac id' w =
     (case sac_rpc cac MethodGetCertificate (bytes_of_string id') w of
        ((cert, err), w1) \<Rightarrow> ((cert, err), w1))"

definition StorageAuthorityClient_GetCertificateByShortSerial ::
  "library \<Rightarrow> 's StorageAuthorityClient \<Rightarrow> string \<Rightarrow> 's world
     \<Rightarrow> (bytes \<times> error option) \<times> 's world" where
  "StorageAuthorityClient_GetCertificateByShortSerial lib cac id' w =
     (case sac_rpc cac MethodGetCertificateByShortSerial (bytes_of_string id') w of
        ((cert, err), w1) \<Rightarrow> ((cert, err), w1))"

definition StorageAuthorityClient_GetCertificateStatus ::
  "library \<Rightarrow> 's StorageAuthorityClient \<Rightarrow> string \<Rightarrow> 's world
     \<Rightarrow> (core_CertificateStatus \<times> error option) \<times> 's world" where
  "StorageAuthorityClient_GetCertificateStatus lib cac id' w =
     (case sac_rpc cac MethodGetCertificateStatus (bytes_of_string id') w of
        ((jsonStatus, err), w1) \<Rightarrow>
        if notnil err then ((zero_CertificateStatus, err), w1)
        else case json_Unmarshal_CertificateStatus lib jsonStatus of (status, err) \<Rightarrow>
          ((status, err), w1))"

definition StorageAuthorityClient_MarkCertificateRevoked ::
  "library \<Rightarrow> 's StorageAuthorityClient \<Rightarrow> string \<Rightarrow> bytes \<Rightarrow> go_int \<Rightarrow> 's world
     \<Rightarrow> error option \<times> 's world" where
  "StorageAuthorityClient_MarkCertificateRevoked lib cac serial ocspResponse reasonCode w =
     (let revokeReq = \<lparr>mr_Serial = serial, mr_OCSPResponse = ocspResponse,
                        mr_ReasonCode = reasonCode\<rparr> in
      case json_Marshal lib (DMarkRevokedRequest revokeReq) of (data, err) \<Rightarrow>
        if notnil err then (err, w)
        else case sac_rpc cac MethodMarkCertificateRevoked data w of ((_, err), w1) \<Rightarrow>
          (err, w1))"

definition StorageAuthorityClient_UpdateRegistration ::
  "library \<Rightarrow> 's StorageAuthorityClient \<Rightarrow> core_Registration \<Rightarrow> 's world
     \<Rightarrow> error option \<times> 's world" where
  "StorageAuthorityClient_UpdateRegistration lib cac reg w =
     (case json_Marshal lib (DRegistration reg) of (jsonReg, err) \<Rightarrow>
        if notnil err then (err, w)
        else case sac_rpc cac MethodUpdateRegistration jsonReg w of ((_, err), w1) \<Rightarrow> (err, w1))"

text \<open>
  NewRegistration (SA) replaces every failure, the transport's included, by a fresh
  \<open>errors.New("NewRegistration RPC failed")\<close>.
\<close>
definition StorageAuthorityClient_NewRegistration ::
  "library \<Rightarrow> 's StorageAuthorityClient \<Rightarrow> core_Registration \<Rightarrow> 's world
     \<Rightarrow> (core_Registration \<times> error option) \<times> 's world" where
  "StorageAuthorityClient_NewRegistration lib cac reg w =
     (case json_Marshal lib (DRegistration reg) of (jsonReg, err) \<Rightarrow>
        if notnil err
        then ((zero_Registration, Some (errors_New ''NewRegistration RPC failed'')), w)
        else case sac_rpc cac MethodNewRegistration jsonReg w of ((response, err), w1) \<Rightarrow>
          if notnil err \<or> length response = 0
          then ((zero_Registration, Some (errors_New ''NewRegistration RPC failed'')), w1)
          else case json_Unmarshal_Registration lib response of (output, err) \<Rightarrow>
            if notnil err
            then ((output, Some (errors_New ''NewRegistration RPC failed'')), w1)
            else ((output, None), w1))"

text \<open>The error built after a failed decode is written with the text of NewRegistration.\<close>
definition StorageAuthorityClient_NewPendingAuthorization ::
  "library \<Rightarrow> 's StorageAuthorityClient \<Rightarrow> core_Authorization \<Rightarrow> 's world
     \<Rightarrow> (core_Authorization \<times> error option) \<times> 's world" where
  "StorageAuthorityClient_NewPendingAuthorization lib cac authz w =
     (case json_Marshal lib (DAuthorization authz) of (jsonAuthz, err) \<Rightarrow>
        if notnil err then ((zero_Authorization, err), w)
        else case sac_rpc cac MethodNewPendingAuthorization jsonAuthz w of
          ((response, err), w1) \<Rightarrow>
          if notnil err \<or> length response = 0
          then ((zero_Authorization, Some (errors_New ''NewPendingAuthorization RPC failed'')), w1)
          else case json_Unmarshal_Authorization lib response of (output, err) \<Rightarrow>
            if notnil err
            then ((output, Some (errors_New ''NewRegistration RPC failed'')), w1)
            else ((output, err), w1))"

definition StorageAuthorityClient_UpdatePendingAuthorization ::
  "library \<Rightarrow> 's StorageAuthorityClient \<Rightarrow> core_Authorization \<Rightarrow> 's world
     \<Rightarrow> error option \<times> 's world" where
  "StorageAuthorityClient_UpdatePendingAuthorization lib cac authz w =
     (case json_Marshal lib (DAuthorization authz) of (jsonAuthz, err) \<Rightarrow>
        if notnil err then (err, w)
        else case sac_rpc cac MethodUpdatePendingAuthorization jsonAuthz w of
          ((_, err), w1) \<Rightarrow> (err, w1))"

definition StorageAuthorityClient_FinalizeAuthorization ::
  "library \<Rightarrow> 's StorageAuthorityClient \<Rightarrow> core_Authorization \<Rightarrow> 's world
     \<Rightarrow> error option \<times> 's world" where
  "StorageAuthorityClient_FinalizeAuthorization lib cac authz w =
     (case json_Marshal lib (DAuthorization authz) of (jsonAuthz, err) \<Rightarrow>
        if notnil err then (err, w)
        else case sac_rpc cac MethodFinalizeAuthorization jsonAuthz w of
          ((_, err), w1) \<Rightarrow> (err, w1))"

definition StorageAuthorityClient_AddCertificate ::
  "library \<Rightarrow> 's StorageAuthorityClient \<Rightarrow> bytes \<Rightarrow> int64 \<Rightarrow> 's world
     \<Rightarrow> (string \<times> error option) \<times> 's world" where
  "StorageAuthorityClient_AddCertificate lib cac cert regID w =
     (let icReq = \<lparr>ac_Bytes = cert, ac_RegID = regID\<rparr> in
      case json_Marshal lib (DAddCertificateRequest icReq) of (data, err) \<Rightarrow>
        if notnil err then (([], err), w)
        else case sac_rpc cac MethodAddCertificate data w of ((response, err), w1) \<Rightarrow>
          if notnil err \<or> length response = 0
          then (([], Some (errors_New ''AddCertificate RPC failed'')), w1)
          else ((string_of_bytes response, err), w1))"

text \<open>
  The \<open>switch\<close> on the first response byte has the cases \<open>0\<close> and \<open>1\<close> and no default:
  on any other byte \<open>exists\<close> keeps its zero value \<open>false\<close>. The guard before it makes
  the response non-empty, so \<open>response[0]\<close> is \<open>hd response\<close>.
\<close>
definition StorageAuthorityClient_AlreadyDeniedCSR ::
  "library \<Rightarrow> 's StorageAuthorityClient \<Rightarrow> string list \<Rightarrow> 's world
     \<Rightarrow> (bool \<times> error option) \<times> 's world" where
  "StorageAuthorityClient_AlreadyDeniedCSR lib cac names w =
     (let sliceReq = \<lparr>Names = names\<rparr> in
      case json_Marshal lib (DNamesRequest sliceReq) of (data, err) \<Rightarrow>
        if notnil err then ((False, err), w)
        else case sac_rpc cac MethodAlreadyDeniedCSR data w of ((response, err), w1) \<Rightarrow>
          if notnil err \<or> length response = 0
          then ((False, Some (errors_New ''AlreadyDeniedCSR RPC failed'')), w1)
          else if hd response = 0 then ((False, err), w1)
          else if hd response = 1 then ((True, err), w1)
          else ((False, err), w1))"

subsection \<open>A loopback transport and concrete collaborators\<close>

text \<open>
  Modelled from the spec: a transport that delivers a dispatched call to the handler
  registered under its name, and fails with \<open>UnknownOperation\<close> for a name nobody
  registered. It connects a stub to an adapter inside one world.
\<close>
definition loopback :: "'s RPCServer \<Rightarrow> 's RPCClient" where
  "loopback rpc name payload w =
     (case map_of rpc name of
        Some h \<Rightarrow> h payload w
      | None \<Rightarrow> (([], Some (lib_error ''UnknownOperation'')), w))"

text \<open>A transport that answers every dispatch with the given response and error.\<close>
definition reply :: "bytes \<Rightarrow> error option \<Rightarrow> 's RPCClient" where
  "reply response e = (\<lambda>name payload w. ((response, e), w))"

text \<open>
  A library whose encoders return the two bytes \<open>{}\<close> with \<open>marshal_err\<close>, and whose
  decoders and parsers return zero values with \<open>decode_err\<close>. The instances below run
  the wrappers against it.
\<close>
definition library_double :: "error option \<Rightarrow> error option \<Rightarrow> library" where
  "library_double marshal_err decode_err =
     \<lparr>json_Marshal = (\<lambda>v. (if notnil marshal_err then [] else [123, 125], marshal_err)),
      key_MarshalJSON = (\<lambda>k. (if notnil marshal_err then [] else [123, 125], marshal_err)),
      x509_ParseCertificates = (\<lambda>b. (if notnil decode_err then [] else [X509_Certificate b], decode_err)),
      x509_ParseCertificateRequest = (\<lambda>b. (X509_CertificateRequest b, decode_err)),
      json_Unmarshal_Registration = (\<lambda>b. (zero_Registration, decode_err)),
      json_Unmarshal_Authorization = (\<lambda>b. (zero_Authorization, decode_err)),
      json_Unmarshal_Certificate = (\<lambda>b. (zero_Certificate, decode_err)),
      json_Unmarshal_CertificateStatus = (\<lambda>b. (zero_CertificateStatus, decode_err)),
      json_Unmarshal_OCSPSigningRequest = (\<lambda>b. (OCSPSigningRequest 0, decode_err)),
      json_Unmarshal_JsonWebKey = (\<lambda>b. (JsonWebKey 0, decode_err)),
      json_Unmarshal_registrationRequest = (\<lambda>b. (\<lparr>Reg = zero_Registration\<rparr>, decode_err)),
      json_Unmarshal_authorizationRequest =
        (\<lambda>b. (\<lparr>ar_Authz = zero_Authorization, ar_RegID = 0\<rparr>, decode_err)),
      json_Unmarshal_certificateRequest =
        (\<lambda>b. (\<lparr>cr_Req = CertificateRequest 0, cr_RegID = 0\<rparr>, decode_err)),
      json_Unmarshal_updateRegistrationRequest =
        (\<lambda>b. (\<lparr>ur_Base = zero_Registration, ur_Update = zero_Registration\<rparr>, decode_err)),
      json_Unmarshal_updateAuthorizationRequest =
        (\<lambda>b. (\<lparr>ua_Authz = zero_Authorization, ua_Index = 0, ua_Response = Challenge 0\<rparr>,
              decode_err)),
      json_Unmarshal_vaRequest = (\<lambda>b. (\<lparr>va_Authz = zero_Authorization, va_Index = 0\<rparr>, decode_err)),
      json_Unmarshal_issueCertificateRequest =
        (\<lambda>b. (\<lparr>ic_Bytes = [], ic_RegID = 0, ic_EarliestExpiry = zero_Time\<rparr>, decode_err)),
      json_Unmarshal_revokeRequest = (\<lambda>b. (\<lparr>rv_Serial = [], rv_ReasonCode = 0\<rparr>, decode_err)),
      json_Unmarshal_intRequest = (\<lambda>b. (\<lparr>ir_ID = 0\<rparr>, decode_err)),
      json_Unmarshal_addCertificateRequest = (\<lambda>b. (\<lparr>ac_Bytes = [], ac_RegID = 0\<rparr>, decode_err)),
      json_Unmarshal_markRevokedRequest =
        (\<lambda>b. (\<lparr>mr_Serial = [], mr_OCSPResponse = [], mr_ReasonCode = 0\<rparr>, decode_err)),
      json_Unmarshal_namesRequest = (\<lambda>b. (\<lparr>Names = []\<rparr>, decode_err))\<rparr>"

text \<open>
  A storage authority that counts its invocations in the domain state and answers
  every method with zero values and the error \<open>e\<close>.
\<close>
definition sa_double :: "error option \<Rightarrow> nat StorageAuthority" where
  "sa_double e =
     \<lparr>sa_UpdateRegistration = (\<lambda>reg n. (e, Suc n)),
      sa_GetRegistration = (\<lambda>i n. ((zero_Registration, e), Suc n)),
      sa_GetRegistrationByKey = (\<lambda>k n. ((zero_Registration, e), Suc n)),
      sa_GetAuthorization = (\<lambda>i n. ((zero_Authorization, e), Suc n)),
      sa_AddCertificate = (\<lambda>b i n. (([], e), Suc n)),
      sa_NewRegistration = (\<lambda>reg n. ((zero_Registration, e), Suc n)),
      sa_NewPendingAuthorization = (\<lambda>a n. ((zero_Authorization, e), Suc n)),
      sa_UpdatePendingAuthorization = (\<lambda>a n. (e, Suc n)),
      sa_FinalizeAuthorization = (\<lambda>a n. (e, Suc n)),
      sa_GetCertificate = (\<lambda>i n. (([], e), Suc n)),
      sa_GetCertificateByShortSerial = (\<lambda>i n. (([], e), Suc n)),
      sa_GetCertificateStatus = (\<lambda>i n. ((zero_CertificateStatus, e), Suc n)),
      sa_MarkCertificateRevoked = (\<lambda>s b c n. (e, Suc n)),
      sa_AlreadyDeniedCSR = (\<lambda>ns n. ((False, e), Suc n))\<rparr>"

text \<open>
  A certificate authority that records the arguments of every IssueCertificate call in
  the domain state and answers every method with the error \<open>e\<close>.
\<close>
definition ca_double ::
  "error option \<Rightarrow> (x509_CertificateRequest \<times> int64 \<times> time_Time) list CertificateAuthority" where
  "ca_double e =
     \<lparr>ca_IssueCertificate = (\<lambda>csr regID t calls. ((Certificate 1, e), calls @ [(csr, regID, t)])),
      ca_RevokeCertificate = (\<lambda>serial code calls. (e, calls)),
      ca_GenerateOCSP = (\<lambda>req calls. (([], e), calls))\<rparr>"

text \<open>A world with empty logs over the domain state \<open>d\<close>.\<close>
definition world0 :: "'s \<Rightarrow> 's world" where
  "world0 d = \<lparr>audit_log = [], info_log = [], domain = d\<rparr>"

section \<open>Properties\<close>

subsection \<open>Binding\<close>

text \<open>
  C10. Every server constructor (RA, VA, CA, SA) returns a \<open>nil\<close> error for every
  endpoint and every domain implementation: binding cannot fail.
\<close>
theorem binding_never_fails:
  "snd (NewRegistrationAuthorityServer lib rpc1 ra) = None \<and>
   snd (NewValidationAuthorityServer lib rpc2 va) = None \<and>
   snd (NewCertificateAuthorityServer lib rpc3 ca) = None \<and>
   snd (NewStorageAuthorityServer lib rpc4 sa) = None"
  by (simp add: NewRegistrationAuthorityServer_def NewValidationAuthorityServer_def
      NewCertificateAuthorityServer_def NewStorageAuthorityServer_def Let_def)

subsection \<open>Undecodable requests\<close>

text \<open>
  What the handlers with a decoding step do when it fails with an error \<open>e\<close>: nineteen
  of them return \<open>e\<close> with an empty response and append one Improper Message entry to an
  otherwise unchanged world. The right-hand sides do not mention \<open>impl\<close> and leave the
  domain state as it was: the bound implementation is not called.
\<close>

lemma RA_NewRegistration_handler_improper:
  "json_Unmarshal_registrationRequest lib req = (v, Some e) \<Longrightarrow>
   RA_NewRegistration_handler lib impl req w =
     (([], Some e), improperMessage MethodNewRegistration (Some e) (DBytes req) w)"
  by (simp add: RA_NewRegistration_handler_def notnil_def Let_def)

lemma RA_NewAuthorization_handler_improper:
  "json_Unmarshal_authorizationRequest lib req = (v, Some e) \<Longrightarrow>
   RA_NewAuthorization_handler lib impl req w =
     (([], Some e), improperMessage MethodNewAuthorization (Some e) (DBytes req) w)"
  by (simp add: RA_NewAuthorization_handler_def notnil_def Let_def)

lemma RA_NewCertificate_handler_improper:
  "json_Unmarshal_certificateRequest lib req = (v, Some e) \<Longrightarrow>
   RA_NewCertificate_handler lib impl req w =
     (([], Some e), improperMessage MethodNewCertificate (Some e) (DBytes req) (log_Info '' [.] Entering MethodNewCertificate'' w))"
  by (simp add: RA_NewCertificate_handler_def notnil_def Let_def)

lemma RA_UpdateRegistration_handler_improper:
  "json_Unmarshal_updateRegistrationRequest lib req = (v, Some e) \<Longrightarrow>
   RA_UpdateRegistration_handler lib impl req w =
     (([], Some e), improperMessage MethodUpdateRegistration (Some e) (DBytes req) w)"
  by (simp add: RA_UpdateRegistration_handler_def notnil_def Let_def)

lemma RA_UpdateAuthorization_handler_improper:
  "json_Unmarshal_updateAuthorizationRequest lib req = (v, Some e) \<Longrightarrow>
   RA_UpdateAuthorization_handler lib impl req w =
     (([], Some e), improperMessage MethodUpdateAuthorization (Some e) (DBytes req) w)"
  by (simp add: RA_UpdateAuthorization_handler_def notnil_def Let_def)

lemma RA_RevokeCertificate_handler_improper:
  "x509_ParseCertificates lib req = (v, Some e) \<Longrightarrow>
   RA_RevokeCertificate_handler lib impl req w =
     (([], Some e), improperMessage MethodRevokeCertificate (Some e) (DBytes req) w)"
  by (simp add: RA_RevokeCertificate_handler_def notnil_def Let_def)

lemma RA_OnValidationUpdate_handler_improper:
  "json_Unmarshal_Authorization lib req = (v, Some e) \<Longrightarrow>
   RA_OnValidationUpdate_handler lib impl req w =
     (([], Some e), improperMessage MethodOnValidationUpdate (Some e) (DBytes req) w)"
  by (simp add: RA_OnValidationUpdate_handler_def notnil_def Let_def)

lemma VA_UpdateValidations_handler_improper:
  "json_Unmarshal_vaRequest lib req = (v, Some e) \<Longrightarrow>
   VA_UpdateValidations_handler lib impl req w =
     (([], Some e), improperMessage MethodUpdateValidations (Some e) (DBytes req) w)"
  by (simp add: VA_UpdateValidations_handler_def notnil_def Let_def)

lemma CA_IssueCertificate_handler_improper:
  "json_Unmarshal_issueCertificateRequest lib req = (v, Some e) \<Longrightarrow>
   CA_IssueCertificate_handler lib impl req w =
     (([], Some e), improperMessage MethodIssueCertificate (Some e) (DBytes req) w)"
  by (simp add: CA_IssueCertificate_handler_def notnil_def Let_def)

lemma SA_UpdateRegistration_handler_improper:
  "json_Unmarshal_Registration lib req = (v, Some e) \<Longrightarrow>
   SA_UpdateRegistration_handler lib impl req w =
     (([], Some e), improperMessage MethodUpdateRegistration (Some e) (DBytes req) w)"
  by (simp add: SA_UpdateRegistration_handler_def notnil_def Let_def)

lemma SA_GetRegistration_handler_improper:
  "json_Unmarshal_intRequest lib req = (v, Some e) \<Longrightarrow>
   SA_GetRegistration_handler lib impl req w =
     (([], Some e), improperMessage MethodGetRegistration (Some e) (DBytes req) w)"
  by (simp add: SA_GetRegistration_handler_def notnil_def Let_def)

lemma SA_GetRegistrationByKey_handler_improper:
  "json_Unmarshal_JsonWebKey lib req = (v, Some e) \<Longrightarrow>
   SA_GetRegistrationByKey_handler lib impl req w =
     (([], Some e), improperMessage MethodGetRegistrationByKey (Some e) (DBytes req) w)"
  by (simp add: SA_GetRegistrationByKey_handler_def notnil_def Let_def)

lemma SA_AddCertificate_handler_improper:
  "json_Unmarshal_addCertificateRequest lib req = (v, Some e) \<Longrightarrow>
   SA_AddCertificate_handler lib impl req w =
     (([], Some e), improperMessage MethodAddCertificate (Some e) (DBytes req) w)"
  by (simp add: SA_AddCertificate_handler_def notnil_def Let_def)

lemma SA_NewRegistration_handler_improper:
  "json_Unmarshal_Registration lib req = (v, Some e) \<Longrightarrow>
   SA_NewRegistration_handler lib impl req w =
     (([], Some e), improperMessage MethodNewRegistration (Some e) (DBytes req) w)"
  by (simp add: SA_NewRegistration_handler_def notnil_def Let_def)

lemma SA_NewPendingAuthorization_handler_improper:
  "json_Unmarshal_Authorization lib req = (v, Some e) \<Longrightarrow>
   SA_NewPendingAuthorization_handler lib impl req w =
     (([], Some e), improperMessage MethodNewPendingAuthorization (Some e) (DBytes req) w)"
  by (simp add: SA_NewPendingAuthorization_handler_def notnil_def Let_def)

lemma SA_UpdatePendingAuthorization_handler_improper:
  "json_Unmarshal_Authorization lib req = (v, Some e) \<Longrightarrow>
   SA_UpdatePendingAuthorization_handler lib impl req w =
     (([], Some e), improperMessage MethodUpdatePendingAuthorization (Some e) (DBytes req) w)"
  by (simp add: SA_UpdatePendingAuthorization_handler_def notnil_def Let_def)

lemma SA_FinalizeAuthorization_handler_improper:
  "json_Unmarshal_Authorization lib req = (v, Some e) \<Longrightarrow>
   SA_FinalizeAuthorization_handler lib impl req w =
     (([], Some e), improperMessage MethodFinalizeAuthorization (Some e) (DBytes req) w)"
  by (simp add: SA_FinalizeAuthorization_handler_def notnil_def Let_def)

lemma SA_MarkCertificateRevoked_handler_improper:
  "json_Unmarshal_markRevokedRequest lib req = (v, Some e) \<Longrightarrow>
   SA_MarkCertificateRevoked_handler lib impl req w =
     (([], Some e), improperMessage MethodMarkCertificateRevoked (Some e) (DBytes req) w)"
  by (simp add: SA_MarkCertificateRevoked_handler_def notnil_def Let_def)

lemma SA_AlreadyDeniedCSR_handler_improper:
  "json_Unmarshal_namesRequest lib req = (v, Some e) \<Longrightarrow>
   SA_AlreadyDeniedCSR_handler lib impl req w =
     (([], Some e), improperMessage MethodAlreadyDeniedCSR (Some e) (DBytes req) w)"
  by (simp add: SA_AlreadyDeniedCSR_handler_def notnil_def Let_def)

lemma CA_IssueCertificate_handler_improper_csr:
  "json_Unmarshal_issueCertificateRequest lib req = (icReq, None) \<Longrightarrow>
   x509_ParseCertificateRequest lib (ic_Bytes icReq) = (csr, Some e) \<Longrightarrow>
   CA_IssueCertificate_handler lib impl req w =
     (([], Some e), improperMessage MethodIssueCertificate (Some e) (DBytes req) w)"
  by (simp add: CA_IssueCertificate_handler_def notnil_def)

text \<open>
  C1. Every adapter handler of every role answers an undecodable payload with an
  Improper Message audit entry (not an Error Condition), returns the decode error and
  never calls the domain implementation. The code does otherwise in the CA adapter: the
  RevokeCertificate and GenerateOCSP handlers pass a failed \<open>json.Unmarshal\<close> to
  \<open>errorCondition\<close>, so the entry they record is an Error Condition, where the
  IssueCertificate handler beside them and the handlers of the other roles call
  \<open>improperMessage\<close>. The RA RevokeCertificate handler, on a payload in which the parser
  finds no certificate and reports no error, records an Improper Message and returns a
  \<open>nil\<close> error. The theorem runs the three handlers on such payloads.
\<close>
theorem CA_decode_failure_is_audited_as_error_condition:
  "CA_RevokeCertificate_handler (library_double None (Some (lib_error ''invalid character'')))
      impl [120] (world0 d) =
     (([], Some (lib_error ''invalid character'')),
      \<lparr>audit_log = [\<lparr>ae_kind = ErrorCondition, ae_method = ''RevokeCertificate'',
                      ae_err = Some (lib_error ''invalid character''), ae_data = DBytes [120]\<rparr>],
       info_log = [], domain = d\<rparr>) \<and>
   CA_GenerateOCSP_handler (library_double None (Some (lib_error ''invalid character'')))
      impl [120] (world0 d) =
     (([], Some (lib_error ''invalid character'')),
      \<lparr>audit_log = [\<lparr>ae_kind = ErrorCondition, ae_method = ''GenerateOCSP'',
                      ae_err = Some (lib_error ''invalid character''), ae_data = DBytes [120]\<rparr>],
       info_log = [], domain = d\<rparr>) \<and>
   RA_RevokeCertificate_handler
      ((library_double None None)\<lparr>x509_ParseCertificates := (\<lambda>b. ([], None))\<rparr>)
      ra [] (world0 d) =
     (([], None),
      \<lparr>audit_log = [\<lparr>ae_kind = ImproperMessage, ae_method = ''RevokeCertificate'',
                      ae_err = None, ae_data = DBytes []\<rparr>],
       info_log = [], domain = d\<rparr>)"
  by (simp add: CA_RevokeCertificate_handler_def CA_GenerateOCSP_handler_def
      RA_RevokeCertificate_handler_def library_double_def notnil_def errorCondition_def
      improperMessage_def world0_def MethodRevokeCertificate_def MethodGenerateOCSP_def)

subsection \<open>The boolean byte\<close>

text \<open>
  C2, as amended. When the request encodes and DispatchSync answers
  AlreadyDeniedCSR with a non-empty payload and no error, the stub returns no error and
  the boolean \<open>b = 1\<close> for the first byte \<open>b\<close>: byte 0 decodes to false, byte 1 to true,
  and every other byte value to false, the zero value the \<open>switch\<close> leaves in place.
\<close>
theorem AlreadyDeniedCSR_first_byte:
  assumes "json_Marshal lib (DNamesRequest \<lparr>Names = names\<rparr>) = (data, None)"
      and "sac_rpc sac MethodAlreadyDeniedCSR data w = ((b # rest, None), w1)"
  shows "StorageAuthorityClient_AlreadyDeniedCSR lib sac names w = ((b = 1, None), w1)"
  using assms by (simp add: StorageAuthorityClient_AlreadyDeniedCSR_def notnil_def Let_def)

theorem AlreadyDeniedCSR_first_byte_witness:
  "StorageAuthorityClient_AlreadyDeniedCSR (library_double None None)
     \<lparr>sac_rpc = reply [1] None\<rparr> [''example.com''] (world0 ()) = ((True, None), world0 ())
   \<and> StorageAuthorityClient_AlreadyDeniedCSR (library_double None None)
     \<lparr>sac_rpc = reply [0] None\<rparr> [''example.com''] (world0 ()) = ((False, None), world0 ())
   \<and> StorageAuthorityClient_AlreadyDeniedCSR (library_double None None)
     \<lparr>sac_rpc = reply [255] None\<rparr> [''example.com''] (world0 ()) = ((False, None), world0 ())"
  using AlreadyDeniedCSR_first_byte [of "library_double None None" "[''example.com'']"
      "[123, 125]" "\<lparr>sac_rpc = reply [1] None\<rparr>" "world0 ()" 1 "[]" "world0 ()"]
    AlreadyDeniedCSR_first_byte [of "library_double None None" "[''example.com'']"
      "[123, 125]" "\<lparr>sac_rpc = reply [0] None\<rparr>" "world0 ()" 0 "[]" "world0 ()"]
    AlreadyDeniedCSR_first_byte [of "library_double None None" "[''example.com'']"
      "[123, 125]" "\<lparr>sac_rpc = reply [255] None\<rparr>" "world0 ()" 255 "[]" "world0 ()"]
  by (simp add: library_double_def reply_def notnil_def)

text \<open>The single response byte 2 is not 0, and the stub returns false for it, with no error.\<close>
theorem AlreadyDeniedCSR_byte_2_counterexample:
  "StorageAuthorityClient_AlreadyDeniedCSR (library_double None None)
     \<lparr>sac_rpc = reply [2] None\<rparr> [''example.com''] (world0 ()) = ((False, None), world0 ())"
  by (simp add: StorageAuthorityClient_AlreadyDeniedCSR_def library_double_def reply_def
      notnil_def Let_def)

subsection \<open>Empty responses\<close>

text \<open>
  C3. When DispatchSync returns a zero-length payload with a \<open>nil\<close> error, the stubs
  NewCertificate (RA), IssueCertificate (CA), AddCertificate (SA) and AlreadyDeniedCSR
  (SA) return a non-nil error built by \<open>errors.New\<close>, and its message begins with the
  name of the operation.
\<close>
theorem empty_response_is_operation_error:
  "(json_Marshal lib (DCertificateRequest \<lparr>cr_Req = cr, cr_RegID = regID\<rparr>) = (d1, None) \<and>
    rac_rpc rac MethodNewCertificate d1 w = (([], None), w1) \<longrightarrow>
      RegistrationAuthorityClient_NewCertificate lib rac cr regID w =
        ((zero_Certificate, Some (errors_New ''NewCertificate RPC to RA failed.'')), w1) \<and>
      prefix MethodNewCertificate ''NewCertificate RPC to RA failed.'') \<and>
   (json_Marshal lib (DIssueCertificateRequest
        \<lparr>ic_Bytes = csr_Raw csr, ic_RegID = regID, ic_EarliestExpiry = zero_Time\<rparr>) = (d2, None) \<and>
    cac_rpc cac MethodIssueCertificate d2 w = (([], None), w2) \<longrightarrow>
      CertificateAuthorityClient_IssueCertificate lib cac csr regID t w =
        ((zero_Certificate, Some (errors_New ''IssueCertificate RPC to CA failed.'')), w2) \<and>
      prefix MethodIssueCertificate ''IssueCertificate RPC to CA failed.'') \<and>
   (json_Marshal lib (DAddCertificateRequest \<lparr>ac_Bytes = cert, ac_RegID = regID\<rparr>) = (d3, None) \<and>
    sac_rpc sac MethodAddCertificate d3 w = (([], None), w3) \<longrightarrow>
      StorageAuthorityClient_AddCertificate lib sac cert regID w =
        (([], Some (errors_New ''AddCertificate RPC failed'')), w3) \<and>
      prefix MethodAddCertificate ''AddCertificate RPC failed'') \<and>
   (json_Marshal lib (DNamesRequest \<lparr>Names = names\<rparr>) = (d4, None) \<and>
    sac_rpc sac MethodAlreadyDeniedCSR d4 w = (([], None), w4) \<longrightarrow>
      StorageAuthorityClient_AlreadyDeniedCSR lib sac names w =
        ((False, Some (errors_New ''AlreadyDeniedCSR RPC failed'')), w4) \<and>
      prefix MethodAlreadyDeniedCSR ''AlreadyDeniedCSR RPC failed'')"
proof (intro conjI impI)
  show "prefix MethodNewCertificate ''NewCertificate RPC to RA failed.''"
    by (simp add: MethodNewCertificate_def)
  show "prefix MethodIssueCertificate ''IssueCertificate RPC to CA failed.''"
    by (simp add: MethodIssueCertificate_def)
  show "prefix MethodAddCertificate ''AddCertificate RPC failed''"
    by (simp add: MethodAddCertificate_def)
  show "prefix MethodAlreadyDeniedCSR ''AlreadyDeniedCSR RPC failed''"
    by (simp add: MethodAlreadyDeniedCSR_def)
qed (simp_all add: RegistrationAuthorityClient_NewCertificate_def
    CertificateAuthorityClient_IssueCertificate_def StorageAuthorityClient_AddCertificate_def
    StorageAuthorityClient_AlreadyDeniedCSR_def notnil_def Let_def)

theorem empty_response_is_operation_error_witness:
  "RegistrationAuthorityClient_NewCertificate (library_double None None)
      \<lparr>rac_rpc = reply [] None\<rparr> (CertificateRequest 1) 7 (world0 ())
     = ((zero_Certificate, Some (errors_New ''NewCertificate RPC to RA failed.'')), world0 ()) \<and>
   CertificateAuthorityClient_IssueCertificate (library_double None None)
      \<lparr>cac_rpc = reply [] None\<rparr> (X509_CertificateRequest [48, 0]) 7 (Time 5) (world0 ())
     = ((zero_Certificate, Some (errors_New ''IssueCertificate RPC to CA failed.'')), world0 ()) \<and>
   StorageAuthorityClient_AddCertificate (library_double None None)
      \<lparr>sac_rpc = reply [] None\<rparr> [48, 0] 7 (world0 ())
     = (([], Some (errors_New ''AddCertificate RPC failed'')), world0 ()) \<and>
   StorageAuthorityClient_AlreadyDeniedCSR (library_double None None)
      \<lparr>sac_rpc = reply [] None\<rparr> [''example.com''] (world0 ())
     = ((False, Some (errors_New ''AlreadyDeniedCSR RPC failed'')), world0 ())"
  using empty_response_is_operation_error [where lib = "library_double None None"
      and rac = "\<lparr>rac_rpc = reply [] None\<rparr>" and cac = "\<lparr>cac_rpc = reply [] None\<rparr>"
      and sac = "\<lparr>sac_rpc = reply [] None\<rparr>" and cr = "CertificateRequest 1" and regID = 7
      and csr = "X509_CertificateRequest [48, 0]" and t = "Time 5" and cert = "[48, 0]"
      and names = "[''example.com'']" and w = "world0 ()" and ?w1.0 = "world0 ()"
      and ?w2.0 = "world0 ()" and ?w3.0 = "world0 ()" and ?w4.0 = "world0 ()"
      and ?d1.0 = "[123, 125]" and ?d2.0 = "[123, 125]" and ?d3.0 = "[123, 125]"
      and ?d4.0 = "[123, 125]"]
  by (simp add: library_double_def reply_def notnil_def)

subsection \<open>Audit entries and operation names\<close>

text \<open>
  C4. Every audit entry for an Improper Message or an Error Condition carries the name
  of the operation that failed, in particular the entry of the CA adapter's
  IssueCertificate handler for a failed response encoding and the entry of the CA
  client's GenerateOCSP for a failed request encoding. In the code both of these calls
  of \<open>errorCondition\<close> are written with \<open>MethodGetRegistration\<close>: run with an encoder
  that fails, each records an entry under the name GetRegistration, which is neither
  IssueCertificate nor GenerateOCSP.
\<close>
theorem CA_audit_entries_name_GetRegistration:
  "CA_IssueCertificate_handler (library_double (Some (lib_error ''json: unsupported value'')) None)
      (ca_double None) [123, 125] (world0 []) =
     (([], Some (lib_error ''json: unsupported value'')),
      \<lparr>audit_log = [\<lparr>ae_kind = ErrorCondition, ae_method = ''GetRegistration'',
                      ae_err = Some (lib_error ''json: unsupported value''),
                      ae_data = DBytes [123, 125]\<rparr>],
       info_log = [],
       domain = [(X509_CertificateRequest [], 0, zero_Time)]\<rparr>) \<and>
   CertificateAuthorityClient_GenerateOCSP
      (library_double (Some (lib_error ''json: unsupported value'')) None)
      cac (OCSPSigningRequest 1) (world0 d) =
     (([], Some (lib_error ''json: unsupported value'')),
      \<lparr>audit_log = [\<lparr>ae_kind = ErrorCondition, ae_method = ''GetRegistration'',
                      ae_err = Some (lib_error ''json: unsupported value''),
                      ae_data = DOCSPSigningRequest (OCSPSigningRequest 1)\<rparr>],
       info_log = [], domain = d\<rparr>) \<and>
   ''GetRegistration'' \<noteq> MethodIssueCertificate \<and> ''GetRegistration'' \<noteq> MethodGenerateOCSP"
  by (simp add: CA_IssueCertificate_handler_def CertificateAuthorityClient_GenerateOCSP_def
      library_double_def ca_double_def invoke_def notnil_def errorCondition_def world0_def
      MethodGetRegistration_def MethodIssueCertificate_def MethodGenerateOCSP_def)

subsection \<open>The request of IssueCertificate\<close>

text \<open>
  C5. The request that the CA client's IssueCertificate dispatches carries the CSR
  bytes, the registration ID and the caller's earliestExpiry. In the code the stub never
  assigns the field \<open>EarliestExpiry\<close> of the struct it encodes: for every library,
  transport and world, a call with any earliestExpiry is the call with the zero time,
  so nothing the stub dispatches or returns depends on the value the caller supplied.
\<close>
theorem IssueCertificate_stub_ignores_earliestExpiry:
  "CertificateAuthorityClient_IssueCertificate lib cac csr regID earliestExpiry w =
   CertificateAuthorityClient_IssueCertificate lib cac csr regID zero_Time w"
  by (simp add: CertificateAuthorityClient_IssueCertificate_def)

subsection \<open>Transport errors\<close>

text \<open>
  C6, as amended. When DispatchSync returns a non-nil error \<open>e\<close>, every stub but five
  returns \<open>e\<close> itself; the SA client's NewRegistration, NewPendingAuthorization,
  AddCertificate and AlreadyDeniedCSR return instead a new error \<open>"<operation> RPC
  failed"\<close>; and every stub, the VA client's UpdateValidations included, leaves the
  world as the dispatch returned it, so none records an audit entry. What
  UpdateValidations returns is the subject of C8.
\<close>
theorem transport_error_propagation:
  "(json_Marshal lib (DRegistrationRequest \<lparr>Reg = reg\<rparr>) = (data, None) \<and>
    rac_rpc rac MethodNewRegistration data w = ((resp, Some e), w1) \<longrightarrow>
      RegistrationAuthorityClient_NewRegistration lib rac reg w =
        ((zero_Registration, Some e), w1)) \<and>
   (json_Marshal lib (DAuthorizationRequest \<lparr>ar_Authz = authz, ar_RegID = regID\<rparr>) = (data, None) \<and>
    rac_rpc rac MethodNewAuthorization data w = ((resp, Some e), w1) \<longrightarrow>
      RegistrationAuthorityClient_NewAuthorization lib rac authz regID w =
        ((zero_Authorization, Some e), w1)) \<and>
   (json_Marshal lib (DCertificateRequest \<lparr>cr_Req = cr, cr_RegID = regID\<rparr>) = (data, None) \<and>
    rac_rpc rac MethodNewCertificate data w = ((resp, Some e), w1) \<longrightarrow>
      RegistrationAuthorityClient_NewCertificate lib rac cr regID w =
        ((zero_Certificate, Some e), w1)) \<and>
   (json_Marshal lib (DUpdateRegistrationRequest \<lparr>ur_Base = reg, ur_Update = update\<rparr>) = (data, None) \<and>
    rac_rpc rac MethodUpdateRegistration data w = ((resp, Some e), w1) \<longrightarrow>
      RegistrationAuthorityClient_UpdateRegistration lib rac reg update w =
        ((zero_Registration, Some e), w1)) \<and>
   (json_Marshal lib (DUpdateAuthorizationRequest \<lparr>ua_Authz = authz, ua_Index = index, ua_Response = chall\<rparr>) = (data, None) \<and>
    rac_rpc rac MethodUpdateAuthorization data w = ((resp, Some e), w1) \<longrightarrow>
      RegistrationAuthorityClient_UpdateAuthorization lib rac authz index chall w =
        ((zero_Authorization, Some e), w1)) \<and>
   (rac_rpc rac MethodRevokeCertificate (cert_Raw x509cert) w = ((resp, Some e), w1) \<longrightarrow>
      RegistrationAuthorityClient_RevokeCertificate lib rac x509cert w =
        (Some e, w1)) \<and>
   (json_Marshal lib (DAuthorization authz) = (data, None) \<and>
    rac_rpc rac MethodOnValidationUpdate data w = ((resp, Some e), w1) \<longrightarrow>
      RegistrationAuthorityClient_OnValidationUpdate lib rac authz w =
        (Some e, w1)) \<and>
   (json_Marshal lib (DIssueCertificateRequest \<lparr>ic_Bytes = csr_Raw csr, ic_RegID = regID, ic_EarliestExpiry = zero_Time\<rparr>) = (data, None) \<and>
    cac_rpc cac MethodIssueCertificate data w = ((resp, Some e), w1) \<longrightarrow>
      CertificateAuthorityClient_IssueCertificate lib cac csr regID t w =
        ((zero_Certificate, Some e), w1)) \<and>
   (json_Marshal lib (DRevokeRequest \<lparr>rv_Serial = serial, rv_ReasonCode = reasonCode\<rparr>) = (data, None) \<and>
    cac_rpc cac MethodRevokeCertificate data w = ((resp, Some e), w1) \<longrightarrow>
      CertificateAuthorityClient_RevokeCertificate lib cac serial reasonCode w =
        (Some e, w1)) \<and>
   (json_Marshal lib (DOCSPSigningRequest signRequest) = (data, None) \<and>
    cac_rpc cac MethodGenerateOCSP data w = ((resp, Some e), w1) \<longrightarrow>
      CertificateAuthorityClient_GenerateOCSP lib cac signRequest w =
        ((resp, Some e), w1)) \<and>
   (json_Marshal lib (DIntRequest \<lparr>ir_ID = regID\<rparr>) = (data, None) \<and>
    sac_rpc sac MethodGetRegistration data w = ((resp, Some e), w1) \<longrightarrow>
      StorageAuthorityClient_GetRegistration lib sac regID w =
        ((zero_Registration, Some e), w1)) \<and>
   (key_MarshalJSON lib key = (data, None) \<and>
    sac_rpc sac MethodGetRegistrationByKey data w = ((resp, Some e), w1) \<longrightarrow>
      StorageAuthorityClient_GetRegistrationByKey lib sac key w =
        ((zero_Registration, Some e), w1)) \<and>
   (sac_rpc sac MethodGetAuthorization (bytes_of_string serial) w = ((resp, Some e), w1) \<longrightarrow>
      StorageAuthorityClient_GetAuthorization lib sac serial w =
        ((zero_Authorization, Some e), w1)) \<and>
   (sac_rpc sac MethodGetCertificate (bytes_of_string serial) w = ((resp, Some e), w1) \<longrightarrow>
      StorageAuthorityClient_GetCertificate lib sac serial w =
        ((resp, Some e), w1)) \<and>
   (sac_rpc sac MethodGetCertificateByShortSerial (bytes_of_string serial) w = ((resp, Some e), w1) \<longrightarrow>
      StorageAuthorityClient_GetCertificateByShortSerial lib sac serial w =
        ((resp, Some e), w1)) \<and>
   (sac_rpc sac MethodGetCertificateStatus (bytes_of_string serial) w = ((resp, Some e), w1) \<longrightarrow>
      StorageAuthorityClient_GetCertificateStatus lib sac serial w =
        ((zero_CertificateStatus, Some e), w1)) \<and>
   (json_Marshal lib (DMarkRevokedRequest \<lparr>mr_Serial = serial, mr_OCSPResponse = ocspResponse, mr_ReasonCode = reasonCode\<rparr>) = (data, None) \<and>
    sac_rpc sac MethodMarkCertificateRevoked data w = ((resp, Some e), w1) \<longrightarrow>
      StorageAuthorityClient_MarkCertificateRevoked lib sac serial ocspResponse reasonCode w =
        (Some e, w1)) \<and>
   (json_Marshal lib (DRegistration reg) = (data, None) \<and>
    sac_rpc sac MethodUpdateRegistration data w = ((resp, Some e), w1) \<longrightarrow>
      StorageAuthorityClient_UpdateRegistration lib sac reg w =
        (Some e, w1)) \<and>
   (json_Marshal lib (DAuthorization authz) = (data, None) \<and>
    sac_rpc sac MethodUpdatePendingAuthorization data w = ((resp, Some e), w1) \<longrightarrow>
      StorageAuthorityClient_UpdatePendingAuthorization lib sac authz w =
        (Some e, w1)) \<and>
   (json_Marshal lib (DAuthorization authz) = (data, None) \<and>
    sac_rpc sac MethodFinalizeAuthorization data w = ((resp, Some e), w1) \<longrightarrow>
      StorageAuthorityClient_FinalizeAuthorization lib sac authz w =
        (Some e, w1)) \<and>
   (json_Marshal lib (DRegistration reg) = (data, None) \<and>
    sac_rpc sac MethodNewRegistration data w = ((resp, Some e), w1) \<longrightarrow>
      StorageAuthorityClient_NewRegistration lib sac reg w =
        ((zero_Registration, Some (errors_New ''NewRegistration RPC failed'')), w1)) \<and>
   (json_Marshal lib (DAuthorization authz) = (data, None) \<and>
    sac_rpc sac MethodNewPendingAuthorization data w = ((resp, Some e), w1) \<longrightarrow>
      StorageAuthorityClient_NewPendingAuthorization lib sac authz w =
        ((zero_Authorization, Some (errors_New ''NewPendingAuthorization RPC failed'')), w1)) \<and>
   (json_Marshal lib (DAddCertificateRequest \<lparr>ac_Bytes = der, ac_RegID = regID\<rparr>) = (data, None) \<and>
    sac_rpc sac MethodAddCertificate data w = ((resp, Some e), w1) \<longrightarrow>
      StorageAuthorityClient_AddCertificate lib sac der regID w =
        (([], Some (errors_New ''AddCertificate RPC failed'')), w1)) \<and>
   (json_Marshal lib (DNamesRequest \<lparr>Names = names\<rparr>) = (data, None) \<and>
    sac_rpc sac MethodAlreadyDeniedCSR data w = ((resp, Some e), w1) \<longrightarrow>
      StorageAuthorityClient_AlreadyDeniedCSR lib sac names w =
        ((False, Some (errors_New ''AlreadyDeniedCSR RPC failed'')), w1)) \<and>
   (json_Marshal lib (DVaRequest \<lparr>va_Authz = authz, va_Index = index\<rparr>) = (data, None) \<and>
    vac_rpc vac MethodUpdateValidations data w = ((resp, Some e), w1) \<longrightarrow>
      snd (ValidationAuthorityClient_UpdateValidations lib vac authz index w) = w1)"
  by (intro conjI impI;
      simp add: RegistrationAuthorityClient_NewRegistration_def
        RegistrationAuthorityClient_NewAuthorization_def
        RegistrationAuthorityClient_NewCertificate_def
        RegistrationAuthorityClient_UpdateRegistration_def
        RegistrationAuthorityClient_UpdateAuthorization_def
        RegistrationAuthorityClient_RevokeCertificate_def
        RegistrationAuthorityClient_OnValidationUpdate_def
        CertificateAuthorityClient_IssueCertificate_def
        CertificateAuthorityClient_RevokeCertificate_def
        CertificateAuthorityClient_GenerateOCSP_def
        StorageAuthorityClient_GetRegistration_def
        StorageAuthorityClient_GetRegistrationByKey_def
        StorageAuthorityClient_GetAuthorization_def
        StorageAuthorityClient_GetCertificate_def
        StorageAuthorityClient_GetCertificateByShortSerial_def
        StorageAuthorityClient_GetCertificateStatus_def
        StorageAuthorityClient_MarkCertificateRevoked_def
        StorageAuthorityClient_UpdateRegistration_def
        StorageAuthorityClient_UpdatePendingAuthorization_def
        StorageAuthorityClient_FinalizeAuthorization_def
        StorageAuthorityClient_NewRegistration_def
        StorageAuthorityClient_NewPendingAuthorization_def
        StorageAuthorityClient_AddCertificate_def
        StorageAuthorityClient_AlreadyDeniedCSR_def
        ValidationAuthorityClient_UpdateValidations_def
        notnil_def Let_def)

theorem transport_error_propagation_witness:
  "RegistrationAuthorityClient_NewRegistration (library_double None None) \<lparr>rac_rpc = reply [] (Some (lib_error ''connection closed''))\<rparr> (Registration 1) (world0 ()) =
     ((zero_Registration, Some (lib_error ''connection closed'')), world0 ()) \<and>
   RegistrationAuthorityClient_NewAuthorization (library_double None None) \<lparr>rac_rpc = reply [] (Some (lib_error ''connection closed''))\<rparr> (Authorization 1) 7 (world0 ()) =
     ((zero_Authorization, Some (lib_error ''connection closed'')), world0 ()) \<and>
   RegistrationAuthorityClient_NewCertificate (library_double None None) \<lparr>rac_rpc = reply [] (Some (lib_error ''connection closed''))\<rparr> (CertificateRequest 1) 7 (world0 ()) =
     ((zero_Certificate, Some (lib_error ''connection closed'')), world0 ()) \<and>
   RegistrationAuthorityClient_UpdateRegistration (library_double None None) \<lparr>rac_rpc = reply [] (Some (lib_error ''connection closed''))\<rparr> (Registration 1) (Registration 2) (world0 ()) =
     ((zero_Registration, Some (lib_error ''connection closed'')), world0 ()) \<and>
   RegistrationAuthorityClient_UpdateAuthorization (library_double None None) \<lparr>rac_rpc = reply [] (Some (lib_error ''connection closed''))\<rparr> (Authorization 1) 0 (Challenge 1) (world0 ()) =
     ((zero_Authorization, Some (lib_error ''connection closed'')), world0 ()) \<and>
   RegistrationAuthorityClient_RevokeCertificate (library_double None None) \<lparr>rac_rpc = reply [] (Some (lib_error ''connection closed''))\<rparr> (X509_Certificate [48, 0]) (world0 ()) =
     (Some (lib_error ''connection closed''), world0 ()) \<and>
   RegistrationAuthorityClient_OnValidationUpdate (library_double None None) \<lparr>rac_rpc = reply [] (Some (lib_error ''connection closed''))\<rparr> (Authorization 1) (world0 ()) =
     (Some (lib_error ''connection closed''), world0 ()) \<and>
   CertificateAuthorityClient_IssueCertificate (library_double None None) \<lparr>cac_rpc = reply [] (Some (lib_error ''connection closed''))\<rparr> (X509_CertificateRequest [48, 0]) 7 (Time 5) (world0 ()) =
     ((zero_Certificate, Some (lib_error ''connection closed'')), world0 ()) \<and>
   CertificateAuthorityClient_RevokeCertificate (library_double None None) \<lparr>cac_rpc = reply [] (Some (lib_error ''connection closed''))\<rparr> ''00ff'' 1 (world0 ()) =
     (Some (lib_error ''connection closed''), world0 ()) \<and>
   CertificateAuthorityClient_GenerateOCSP (library_double None None) \<lparr>cac_rpc = reply [] (Some (lib_error ''connection closed''))\<rparr> (OCSPSigningRequest 1) (world0 ()) =
     (([], Some (lib_error ''connection closed'')), world0 ()) \<and>
   StorageAuthorityClient_GetRegistration (library_double None None) \<lparr>sac_rpc = reply [] (Some (lib_error ''connection closed''))\<rparr> 7 (world0 ()) =
     ((zero_Registration, Some (lib_error ''connection closed'')), world0 ()) \<and>
   StorageAuthorityClient_GetRegistrationByKey (library_double None None) \<lparr>sac_rpc = reply [] (Some (lib_error ''connection closed''))\<rparr> (JsonWebKey 1) (world0 ()) =
     ((zero_Registration, Some (lib_error ''connection closed'')), world0 ()) \<and>
   StorageAuthorityClient_GetAuthorization (library_double None None) \<lparr>sac_rpc = reply [] (Some (lib_error ''connection closed''))\<rparr> ''00ff'' (world0 ()) =
     ((zero_Authorization, Some (lib_error ''connection closed'')), world0 ()) \<and>
   StorageAuthorityClient_GetCertificate (library_double None None) \<lparr>sac_rpc = reply [] (Some (lib_error ''connection closed''))\<rparr> ''00ff'' (world0 ()) =
     (([], Some (lib_error ''connection closed'')), world0 ()) \<and>
   StorageAuthorityClient_GetCertificateByShortSerial (library_double None None) \<lparr>sac_rpc = reply [] (Some (lib_error ''connection closed''))\<rparr> ''00ff'' (world0 ()) =
     (([], Some (lib_error ''connection closed'')), world0 ()) \<and>
   StorageAuthorityClient_GetCertificateStatus (library_double None None) \<lparr>sac_rpc = reply [] (Some (lib_error ''connection closed''))\<rparr> ''00ff'' (world0 ()) =
     ((zero_CertificateStatus, Some (lib_error ''connection closed'')), world0 ()) \<and>
   StorageAuthorityClient_MarkCertificateRevoked (library_double None None) \<lparr>sac_rpc = reply [] (Some (lib_error ''connection closed''))\<rparr> ''00ff'' ([48, 0]) 1 (world0 ()) =
     (Some (lib_error ''connection closed''), world0 ()) \<and>
   StorageAuthorityClient_UpdateRegistration (library_double None None) \<lparr>sac_rpc = reply [] (Some (lib_error ''connection closed''))\<rparr> (Registration 1) (world0 ()) =
     (Some (lib_error ''connection closed''), world0 ()) \<and>
   StorageAuthorityClient_UpdatePendingAuthorization (library_double None None) \<lparr>sac_rpc = reply [] (Some (lib_error ''connection closed''))\<rparr> (Authorization 1) (world0 ()) =
     (Some (lib_error ''connection closed''), world0 ()) \<and>
   StorageAuthorityClient_FinalizeAuthorization (library_double None None) \<lparr>sac_rpc = reply [] (Some (lib_error ''connection closed''))\<rparr> (Authorization 1) (world0 ()) =
     (Some (lib_error ''connection closed''), world0 ()) \<and>
   StorageAuthorityClient_NewRegistration (library_double None None) \<lparr>sac_rpc = reply [] (Some (lib_error ''connection closed''))\<rparr> (Registration 1) (world0 ()) =
     ((zero_Registration, Some (errors_New ''NewRegistration RPC failed'')), world0 ()) \<and>
   StorageAuthorityClient_NewPendingAuthorization (library_double None None) \<lparr>sac_rpc = reply [] (Some (lib_error ''connection closed''))\<rparr> (Authorization 1) (world0 ()) =
     ((zero_Authorization, Some (errors_New ''NewPendingAuthorization RPC failed'')), world0 ()) \<and>
   StorageAuthorityClient_AddCertificate (library_double None None) \<lparr>sac_rpc = reply [] (Some (lib_error ''connection closed''))\<rparr> ([48, 0]) 7 (world0 ()) =
     (([], Some (errors_New ''AddCertificate RPC failed'')), world0 ()) \<and>
   StorageAuthorityClient_AlreadyDeniedCSR (library_double None None) \<lparr>sac_rpc = reply [] (Some (lib_error ''connection closed''))\<rparr> [''example.com''] (world0 ()) =
     ((False, Some (errors_New ''AlreadyDeniedCSR RPC failed'')), world0 ()) \<and>
   snd (ValidationAuthorityClient_UpdateValidations (library_double None None) \<lparr>vac_rpc = reply [] (Some (lib_error ''connection closed''))\<rparr> (Authorization 1) 0 (world0 ())) =
     world0 ()"
  using transport_error_propagation [where lib = "library_double None None"
      and rac = "\<lparr>rac_rpc = reply [] (Some (lib_error ''connection closed''))\<rparr>"
      and cac = "\<lparr>cac_rpc = reply [] (Some (lib_error ''connection closed''))\<rparr>"
      and sac = "\<lparr>sac_rpc = reply [] (Some (lib_error ''connection closed''))\<rparr>"
      and vac = "\<lparr>vac_rpc = reply [] (Some (lib_error ''connection closed''))\<rparr>"
      and reg = "Registration 1"
      and update = "Registration 2"
      and authz = "Authorization 1"
      and regID = "7"
      and cr = "CertificateRequest 1"
      and index = "0"
      and chall = "Challenge 1"
      and x509cert = "X509_Certificate [48, 0]"
      and csr = "X509_CertificateRequest [48, 0]"
      and t = "Time 5"
      and serial = "''00ff''"
      and reasonCode = "1"
      and signRequest = "OCSPSigningRequest 1"
      and key = "JsonWebKey 1"
      and ocspResponse = "[48, 0]"
      and der = "[48, 0]"
      and names = "[''example.com'']"
      and data = "[123, 125]"
      and resp = "[]"
      and e = "lib_error ''connection closed''"
      and w = "world0 ()"
      and ?w1.0 = "world0 ()"]
  by (simp add: library_double_def reply_def notnil_def)

text \<open>
  The SA client's NewRegistration, given the transport error \<open>connection closed\<close>,
  returns the error \<open>NewRegistration RPC failed\<close>.
\<close>
theorem transport_error_replaced_counterexample:
  "snd (fst (StorageAuthorityClient_NewRegistration (library_double None None)
       \<lparr>sac_rpc = reply [] (Some (lib_error ''connection closed''))\<rparr> (Registration 1)
       (world0 ())))
     = Some (errors_New ''NewRegistration RPC failed'') \<and>
   errors_New ''NewRegistration RPC failed'' \<noteq> lib_error ''connection closed''"
  by (simp add: StorageAuthorityClient_NewRegistration_def library_double_def reply_def notnil_def)

subsection \<open>The not-found carve-out\<close>

text \<open>
  C7. When the domain implementation answers GetCertificateByShortSerial with an
  error \<open>e\<close>, the SA handler returns \<open>e\<close> with an empty response. If \<open>e\<close> is
  \<open>sql.ErrNoRows\<close> the audit log is unchanged; for any other error the log gains exactly
  one Error Condition entry for the operation.
\<close>
theorem short_serial_not_found_is_not_audited:
  assumes "sa_GetCertificateByShortSerial impl (string_of_bytes req) (domain w) = ((cert, Some e), d)"
  shows "fst (SA_GetCertificateByShortSerial_handler lib impl req w) = ([], Some e) \<and>
         audit_log (snd (SA_GetCertificateByShortSerial_handler lib impl req w)) =
           (if e = sql_ErrNoRows then audit_log w
            else audit_log w @
              [\<lparr>ae_kind = ErrorCondition, ae_method = MethodGetCertificateByShortSerial,
                ae_err = Some e, ae_data = DBytes req\<rparr>])"
  using assms
  by (simp add: SA_GetCertificateByShortSerial_handler_def invoke_def notnil_def
      errorCondition_def)

theorem short_serial_not_found_is_not_audited_witness:
  "fst (SA_GetCertificateByShortSerial_handler (library_double None None)
          (sa_double (Some sql_ErrNoRows)) [48, 49] (world0 0)) = ([], Some sql_ErrNoRows) \<and>
   audit_log (snd (SA_GetCertificateByShortSerial_handler (library_double None None)
          (sa_double (Some sql_ErrNoRows)) [48, 49] (world0 0))) = [] \<and>
   fst (SA_GetCertificateByShortSerial_handler (library_double None None)
          (sa_double (Some (lib_error ''connection refused''))) [48, 49] (world0 0))
     = ([], Some (lib_error ''connection refused'')) \<and>
   audit_log (snd (SA_GetCertificateByShortSerial_handler (library_double None None)
          (sa_double (Some (lib_error ''connection refused''))) [48, 49] (world0 0))) =
     [\<lparr>ae_kind = ErrorCondition, ae_method = ''GetCertificateByShortSerial'',
       ae_err = Some (lib_error ''connection refused''), ae_data = DBytes [48, 49]\<rparr>]"
  using short_serial_not_found_is_not_audited [of "sa_double (Some sql_ErrNoRows)" "[48, 49]"
      "world0 0" "[]" sql_ErrNoRows 1 "library_double None None"]
    short_serial_not_found_is_not_audited [of "sa_double (Some (lib_error ''connection refused''))"
      "[48, 49]" "world0 0" "[]" "lib_error ''connection refused''" 1 "library_double None None"]
  by (simp add: sa_double_def world0_def MethodGetCertificateByShortSerial_def)

subsection \<open>UpdateValidations\<close>

text \<open>
  C8, as amended. Whenever the request encodes, the VA client's UpdateValidations
  returns a \<open>nil\<close> error whatever DispatchSync returns, a non-nil error included, and
  leaves the world as the dispatch returned it. When \<open>json.Marshal\<close> fails the stub
  returns that error and does not dispatch.
\<close>
theorem UpdateValidations_discards_dispatch_error:
  "(json_Marshal lib (DVaRequest \<lparr>va_Authz = authz, va_Index = index\<rparr>) = (data, None) \<longrightarrow>
      ValidationAuthorityClient_UpdateValidations lib vac authz index w =
        (None, snd (vac_rpc vac MethodUpdateValidations data w))) \<and>
   (json_Marshal lib (DVaRequest \<lparr>va_Authz = authz, va_Index = index\<rparr>) = (data, Some e) \<longrightarrow>
      ValidationAuthorityClient_UpdateValidations lib vac authz index w = (Some e, w))"
  by (simp add: ValidationAuthorityClient_UpdateValidations_def notnil_def Let_def
      split: prod.splits)

theorem UpdateValidations_discards_dispatch_error_witness:
  "ValidationAuthorityClient_UpdateValidations (library_double None None)
      \<lparr>vac_rpc = reply [] (Some (lib_error ''connection closed''))\<rparr> (Authorization 1) 0
      (world0 ()) = (None, world0 ()) \<and>
   ValidationAuthorityClient_UpdateValidations
      (library_double (Some (lib_error ''json: unsupported value'')) None)
      \<lparr>vac_rpc = reply [] None\<rparr> (Authorization 1) 0 (world0 ())
     = (Some (lib_error ''json: unsupported value''), world0 ())"
  using UpdateValidations_discards_dispatch_error [of "library_double None None"
      "Authorization 1" 0 "[123, 125]"
      "\<lparr>vac_rpc = reply [] (Some (lib_error ''connection closed''))\<rparr>"
      "world0 ()" "lib_error ''json: unsupported value''"]
    UpdateValidations_discards_dispatch_error
      [of "library_double (Some (lib_error ''json: unsupported value'')) None"
      "Authorization 1" 0 "[]" "\<lparr>vac_rpc = reply [] None\<rparr>"
      "world0 ()" "lib_error ''json: unsupported value''"]
  by (simp add: library_double_def reply_def notnil_def)

text \<open>
  With an encoder that fails, UpdateValidations returns the encoder's error, not
  \<open>nil\<close>.
\<close>
theorem UpdateValidations_encode_failure_counterexample:
  "fst (ValidationAuthorityClient_UpdateValidations
          (library_double (Some (lib_error ''json: unsupported value'')) None)
          \<lparr>vac_rpc = reply [] None\<rparr> (Authorization 1) 0 (world0 ()))
     = Some (lib_error ''json: unsupported value'')"
  by (simp add: ValidationAuthorityClient_UpdateValidations_def library_double_def notnil_def
      Let_def)

subsection \<open>Round trips\<close>

lemma CA_IssueCertificate_handler_domain:
  assumes "json_Unmarshal_issueCertificateRequest lib data = (icReq, None)"
      and "x509_ParseCertificateRequest lib (ic_Bytes icReq) = (csr', None)"
  shows "domain (snd (CA_IssueCertificate_handler lib impl data w))
         = snd (ca_IssueCertificate impl csr' (ic_RegID icReq) (ic_EarliestExpiry icReq) (domain w))"
  using assms
  by (auto simp: CA_IssueCertificate_handler_def invoke_def notnil_def errorCondition_def
      split: prod.splits)

lemma IssueCertificate_stub_world:
  assumes "json_Marshal lib (DIssueCertificateRequest
             \<lparr>ic_Bytes = csr_Raw csr, ic_RegID = regID, ic_EarliestExpiry = zero_Time\<rparr>)
           = (data, None)"
  shows "snd (CertificateAuthorityClient_IssueCertificate lib cac csr regID earliestExpiry w)
         = snd (cac_rpc cac MethodIssueCertificate data w)"
  using assms
  by (auto simp: CertificateAuthorityClient_IssueCertificate_def notnil_def Let_def
      split: prod.splits)

lemma loopback_CA_IssueCertificate:
  "loopback (fst (NewCertificateAuthorityServer lib [] impl)) MethodIssueCertificate
     = CA_IssueCertificate_handler lib impl"
  by (intro ext) (simp add: loopback_def NewCertificateAuthorityServer_def Handle_def Let_def)

text \<open>
  C9. For every operation, decoding the stub's encoded request on the adapter side
  gives back the caller's arguments, and decoding the adapter's encoded response on the
  stub side gives back the domain result. The code breaks this for IssueCertificate
  (CA), by the omission of C5: connect the stub to the CA adapter through the loopback
  transport, with a library that decodes the encoded request to the struct that was
  encoded and parses the CSR bytes back to the CSR. Then the implementation is called
  with the caller's CSR and registration ID and with the zero time, whatever
  earliestExpiry the caller passed.
\<close>
theorem IssueCertificate_loopback_loses_earliestExpiry:
  assumes "json_Marshal lib (DIssueCertificateRequest
             \<lparr>ic_Bytes = csr_Raw csr, ic_RegID = regID, ic_EarliestExpiry = zero_Time\<rparr>)
           = (data, None)"
      and "json_Unmarshal_issueCertificateRequest lib data
           = (\<lparr>ic_Bytes = csr_Raw csr, ic_RegID = regID, ic_EarliestExpiry = zero_Time\<rparr>, None)"
      and "x509_ParseCertificateRequest lib (csr_Raw csr) = (csr, None)"
  shows "domain (snd (CertificateAuthorityClient_IssueCertificate lib
            \<lparr>cac_rpc = loopback (fst (NewCertificateAuthorityServer lib [] impl))\<rparr>
            csr regID earliestExpiry w))
         = snd (ca_IssueCertificate impl csr regID zero_Time (domain w))"
  using assms
  by (simp add: IssueCertificate_stub_world loopback_CA_IssueCertificate
      CA_IssueCertificate_handler_domain)

theorem IssueCertificate_loopback_loses_earliestExpiry_witness:
  "domain (snd (CertificateAuthorityClient_IssueCertificate
       ((library_double None None)
          \<lparr>json_Unmarshal_issueCertificateRequest :=
             (\<lambda>b. (\<lparr>ic_Bytes = [48, 0], ic_RegID = 7, ic_EarliestExpiry = zero_Time\<rparr>, None))\<rparr>)
       \<lparr>cac_rpc = loopback (fst (NewCertificateAuthorityServer
          ((library_double None None)
             \<lparr>json_Unmarshal_issueCertificateRequest :=
                (\<lambda>b. (\<lparr>ic_Bytes = [48, 0], ic_RegID = 7, ic_EarliestExpiry = zero_Time\<rparr>, None))\<rparr>)
          [] (ca_double None)))\<rparr>
       (X509_CertificateRequest [48, 0]) 7 (Time 1433116800) (world0 [])))
   = [(X509_CertificateRequest [48, 0], 7, Time 0)]"
  using IssueCertificate_loopback_loses_earliestExpiry
    [where lib = "(library_double None None)
          \<lparr>json_Unmarshal_issueCertificateRequest :=
             (\<lambda>b. (\<lparr>ic_Bytes = [48, 0], ic_RegID = 7, ic_EarliestExpiry = zero_Time\<rparr>, None))\<rparr>"
      and csr = "X509_CertificateRequest [48, 0]" and regID = 7 and data = "[123, 125]"
      and impl = "ca_double None" and earliestExpiry = "Time 1433116800" and w = "world0 []"]
  by (simp add: library_double_def ca_double_def world0_def notnil_def zero_Time_def)

end
